theory Spec2Isabelle
  imports Complex_Main "HOL-Library.AList" "HOL-Library.Multiset" "HOL-Library.Product_Lexorder"
begin

section \<open>ADGM Corporate Agent: session processing, recommendations and question answering\<close>

text \<open>
  A shallow embedding of \<^verbatim>\<open>src/app.py\<close> (class \<^verbatim>\<open>ADGMCorporateAgent\<close>).
  Conventions of the embedding:
  \<^item> a Python exception is a value of type \<open>exn\<close>; a call that may raise returns
    \<open>exn + 'a\<close> with \<open>Inl\<close> for the exception;
  \<^item> a Python \<^verbatim>\<open>dict\<close> whose iteration order is observed is an association list in
    insertion order, written with \<open>AList.update\<close> (an existing key keeps its place, a new
    key goes to the end) and read with \<open>map_of\<close>;
  \<^item> a Python number (an int or a binary float) is modelled by the rational number it
    denotes, and comparisons of numbers are exact; the float operations that round (\<^verbatim>\<open>+\<close>,
    \<^verbatim>\<open>sum\<close>, \<^verbatim>\<open>/\<close>, the literal \<^verbatim>\<open>0.7\<close>) are a parameter \<open>fa\<close> of every function that
    computes with floats, and the float formatter \<^verbatim>\<open>:.2f\<close> is a parameter \<open>fmt2f\<close> of
    every function that prints a float;
  \<^item> the collaborators the agent calls (\<^verbatim>\<open>src.document_processor\<close>, \<^verbatim>\<open>src.rag_system\<close>,
    the analytics engine and the export manager) are parameters: functions that return a
    value or raise;
  \<^item> calls to the logger are side effects outside the model.
\<close>

subsection \<open>Python values\<close>

datatype exn = PyExn (exn_class: string) (exn_str: string)

definition digit_char :: "nat \<Rightarrow> char" where
  "digit_char d = ''0123456789'' ! d"

fun str_nat :: "nat \<Rightarrow> string" where
  "str_nat n = (if n < 10 then [digit_char n] else str_nat (n div 10) @ [digit_char (n mod 10)])"

declare str_nat.simps [simp del]

definition str_int :: "int \<Rightarrow> string" where
  "str_int i = (if i < 0 then CHR ''-'' # str_nat (nat (- i)) else str_nat (nat i))"

text \<open>\<^verbatim>\<open>sep.join(xs)\<close>\<close>

fun join :: "string \<Rightarrow> string list \<Rightarrow> string" where
  "join sep [] = []"
| "join sep [x] = x"
| "join sep (x # y # ys) = x @ sep @ join sep (y # ys)"

text \<open>\<^verbatim>\<open>os.path.basename\<close> (POSIX): the text after the last slash.\<close>

definition basename :: "string \<Rightarrow> string" where
  "basename p = rev (takeWhile (\<lambda>c. c \<noteq> CHR ''/'') (rev p))"

text \<open>Substring test, \<^verbatim>\<open>needle in hay\<close>.\<close>

fun starts_with :: "string \<Rightarrow> string \<Rightarrow> bool" where
  "starts_with [] hay = True"
| "starts_with (c # cs) [] = False"
| "starts_with (c # cs) (h # hs) = (c = h \<and> starts_with cs hs)"

fun occurs_in :: "string \<Rightarrow> string \<Rightarrow> bool" where
  "occurs_in needle [] = (needle = [])"
| "occurs_in needle (h # hs) = (starts_with needle (h # hs) \<or> occurs_in needle hs)"

text \<open>The characters \<^verbatim>\<open>str.strip()\<close> removes (whitespace code points below 256).\<close>

definition is_space :: "char \<Rightarrow> bool" where
  "is_space c = (of_char c \<in> set [9, 10, 11, 12, 13, 28, 29, 30, 31, 32, 133, 160 :: nat])"

definition strip :: "string \<Rightarrow> string" where
  "strip s = rev (dropWhile is_space (rev (dropWhile is_space s)))"

text \<open>\<^verbatim>\<open>str.title()\<close> on ASCII letters: a letter that follows a letter is lowered, any other
  letter is raised.\<close>

definition is_upper :: "char \<Rightarrow> bool" where
  "is_upper c = (65 \<le> (of_char c :: nat) \<and> (of_char c :: nat) \<le> 90)"

definition is_lower :: "char \<Rightarrow> bool" where
  "is_lower c = (97 \<le> (of_char c :: nat) \<and> (of_char c :: nat) \<le> 122)"

definition to_upper :: "char \<Rightarrow> char" where
  "to_upper c = (if is_lower c then char_of ((of_char c :: nat) - 32) else c)"

definition to_lower :: "char \<Rightarrow> char" where
  "to_lower c = (if is_upper c then char_of ((of_char c :: nat) + 32) else c)"

fun title_from :: "bool \<Rightarrow> string \<Rightarrow> string" where
  "title_from prev_cased [] = []"
| "title_from prev_cased (c # cs) =
     (if prev_cased then to_lower c else to_upper c) # title_from (is_upper c \<or> is_lower c) cs"

definition str_title :: "string \<Rightarrow> string" where
  "str_title s = title_from False s"

subsection \<open>Floating point\<close>

text \<open>
  The arithmetic of the Python interpreter on the scores: \<open>fadd x y\<close> is \<^verbatim>\<open>x + y\<close>,
  \<open>fsum xs\<close> is \<^verbatim>\<open>sum(xs)\<close>, \<open>fdiv x n\<close> is \<^verbatim>\<open>x / n\<close> for a count \<open>n\<close>, and
  \<open>literal_0_7\<close> is the value of the literal \<^verbatim>\<open>0.7\<close>. Each result is the number the
  interpreter returns, rounding included.
\<close>

record float_arith =
  fadd :: "rat \<Rightarrow> rat \<Rightarrow> rat"
  fsum :: "rat list \<Rightarrow> rat"
  fdiv :: "rat \<Rightarrow> nat \<Rightarrow> rat"
  literal_0_7 :: rat

subsection \<open>Data model\<close>

text \<open>The fields of \<^verbatim>\<open>DocumentMetadata\<close> and \<^verbatim>\<open>DocumentSection\<close> that the agent reads.\<close>

record DocumentMetadata =
  filename :: string
  document_type :: string
  confidence_score :: rat
  word_count :: int

record DocumentSection =
  title :: string
  compliance_status :: string
  legal_importance :: string

text \<open>The \<^verbatim>\<open>analysis\<close> dict of a processed document: the two keys the agent reads with
  \<^verbatim>\<open>.get\<close>; \<open>None\<close> is an absent key.\<close>

record analysis_dict =
  overall_compliance_score :: "rat option"
  critical_issues_count :: "int option"

record doc_entry =
  metadata :: DocumentMetadata
  sections :: "DocumentSection list"
  analysis :: analysis_dict
  file_path :: string

record compliance_entry =
  compliance_score :: rat
  issues_count :: int

text \<open>\<^verbatim>\<open>self.current_session\<close>\<close>

record session =
  documents :: "(string \<times> doc_entry) list"
  analysis_results :: "(string \<times> analysis_dict) list"
  compliance_reports :: "(string \<times> compliance_entry) list"
  session_id :: string

text \<open>One dict of the local list \<^verbatim>\<open>results\<close>; \<open>r_error = None\<close> is a dict without the
  key \<^verbatim>\<open>'error'\<close>.\<close>

record result_entry =
  r_document :: string
  r_type :: string
  r_confidence :: rat
  r_compliance_score :: rat
  r_issues_count :: int
  r_error :: "string option"

subsection \<open>Collaborators\<close>

type_synonym document_processor =
  "string \<Rightarrow> exn + (DocumentMetadata \<times> DocumentSection list \<times> analysis_dict)"

record ContextChunk =
  source :: string
  relevance_score :: rat
  chunk_section :: string
  adgm_reference :: string

record RAGResponse =
  answer :: string
  response_confidence_score :: rat
  adgm_references :: "string list"
  related_topics :: "string list"
  follow_up_questions :: "string list"
  sources :: "ContextChunk list"

record rag_system_obj =
  retrieve_relevant_context :: "string \<Rightarrow> nat \<Rightarrow> exn + ContextChunk list"
  generate_response :: "string \<Rightarrow> ContextChunk list \<Rightarrow> exn + RAGResponse"

text \<open>The result dicts of the analytics engine, as \<^verbatim>\<open>generate_analytics_dashboard\<close> reads
  them; \<open>None\<close> is an absent key.\<close>

record summary_stats_dict =
  ss_total_documents :: "int option"
  ss_average_compliance_score :: "rat option"
  ss_total_issues :: "int option"
  ss_critical_issues :: "int option"

record analytics_dict =
  summary_stats :: "summary_stats_dict option"
  document_type_counts :: "(string \<times> int) list"
  severity_distribution :: "(string \<times> int) list"
  performance_metrics :: "(string \<times> rat) list"

record AnalyticsEngine =
  engine_generate_analytics_dashboard :: "session \<Rightarrow> exn + analytics_dict"
  engine_generate_insights :: "session \<Rightarrow> exn + string list"

record ExportManager =
  export_processed_documents :: "session \<Rightarrow> string \<Rightarrow> exn + (string \<times> string)"

subsection \<open>The agent object\<close>

text \<open>
  An instance of \<^verbatim>\<open>ADGMCorporateAgent\<close>. The attributes \<open>analytics_engine\<close> and
  \<open>export_manager\<close> are optional: \<open>None\<close> is an instance on which the attribute was
  never assigned, and reading it raises \<^verbatim>\<open>AttributeError\<close>.
\<close>

record agent =
  openai_api_key :: string
  document_processor :: document_processor
  rag_system :: rag_system_obj
  current_session :: session
  supported_document_types :: "(string \<times> string) list"
  analytics_engine :: "AnalyticsEngine option"
  export_manager :: "ExportManager option"

text \<open>\<^verbatim>\<open>repr\<close> of a string without quotes or backslashes in it.\<close>

definition repr_str :: "string \<Rightarrow> string" where
  "repr_str s = [CHR 0x27] @ s @ [CHR 0x27]"

definition attribute_error :: "string \<Rightarrow> exn" where
  "attribute_error name =
     PyExn ''AttributeError''
       (repr_str ''ADGMCorporateAgent'' @ '' object has no attribute '' @ repr_str name)"

definition get_analytics_engine :: "agent \<Rightarrow> exn + AnalyticsEngine" where
  "get_analytics_engine a =
     (case analytics_engine a of None \<Rightarrow> Inl (attribute_error ''analytics_engine'') | Some e \<Rightarrow> Inr e)"

definition get_export_manager :: "agent \<Rightarrow> exn + ExportManager" where
  "get_export_manager a =
     (case export_manager a of None \<Rightarrow> Inl (attribute_error ''export_manager'') | Some m \<Rightarrow> Inr m)"

text \<open>\<^verbatim>\<open>_generate_session_id\<close>; \<open>now\<close> is the formatted clock reading.\<close>

definition generate_session_id :: "string \<Rightarrow> string" where
  "generate_session_id now = ''session_'' @ now"

text \<open>
  \<^verbatim>\<open>__init__\<close>. \<open>getenv\<close> is the process environment, \<open>mk_processor\<close> and \<open>mk_rag\<close>
  are the two constructors it calls. It assigns \<open>openai_api_key\<close>, \<open>document_processor\<close>,
  \<open>rag_system\<close>, \<open>current_session\<close> and \<open>supported_document_types\<close>, and nothing else.
\<close>

definition init ::
  "(string \<Rightarrow> string option) \<Rightarrow> (exn + document_processor) \<Rightarrow> (string \<Rightarrow> exn + rag_system_obj)
     \<Rightarrow> string \<Rightarrow> exn + agent" where
  "init getenv mk_processor mk_rag now =
     (case getenv ''OPENAI_API_KEY'' of
        None \<Rightarrow> Inl (PyExn ''ValueError'' ''OPENAI_API_KEY not found in environment variables'')
      | Some key \<Rightarrow>
          if key = [] then Inl (PyExn ''ValueError'' ''OPENAI_API_KEY not found in environment variables'')
          else (case mk_processor of
                  Inl e \<Rightarrow> Inl e
                | Inr dp \<Rightarrow>
                    (case mk_rag key of
                       Inl e \<Rightarrow> Inl e
                     | Inr rag \<Rightarrow>
                         Inr \<lparr>openai_api_key = key,
                              document_processor = dp,
                              rag_system = rag,
                              current_session =
                                \<lparr>documents = [], analysis_results = [], compliance_reports = [],
                                 session_id = generate_session_id now\<rparr>,
                              supported_document_types =
                                [(''Articles of Association'', ''articles_of_association''),
                                 (''Memorandum of Association'', ''memorandum_of_association''),
                                 (''UBO Declaration Form'', ''ubo_declaration''),
                                 (''Board Resolution'', ''board_resolution''),
                                 (''Incorporation Application'', ''incorporation_application''),
                                 (''Register of Members'', ''register_of_members''),
                                 (''Register of Directors'', ''register_of_directors''),
                                 (''Shareholder Resolution'', ''shareholder_resolution'')],
                              analytics_engine = None,
                              export_manager = None\<rparr>)))"

subsection \<open>Processing a batch of uploaded files\<close>

text \<open>The local variables of the loop of \<^verbatim>\<open>process_uploaded_documents\<close>, with the session
  it mutates.\<close>

record loop_state =
  ls_session :: session
  results :: "result_entry list"
  total_issues :: int
  total_compliance_score :: rat
  processed_docs :: nat

definition error_result :: "string \<Rightarrow> exn \<Rightarrow> result_entry" where
  "error_result fp e =
     \<lparr>r_document = basename fp, r_type = ''Error'', r_confidence = 0, r_compliance_score = 0,
      r_issues_count = 0, r_error = Some (exn_str e)\<rparr>"

text \<open>One iteration of the loop over \<^verbatim>\<open>files\<close>: the \<^verbatim>\<open>try\<close> body when
  \<^verbatim>\<open>process_document\<close> returns, the \<^verbatim>\<open>except\<close> branch when it raises.\<close>

definition process_file ::
  "float_arith \<Rightarrow> document_processor \<Rightarrow> loop_state \<Rightarrow> string \<Rightarrow> loop_state" where
  "process_file fa dp st fp =
     (case dp fp of
        Inl e \<Rightarrow> st\<lparr>results := results st @ [error_result fp e]\<rparr>
      | Inr (md, secs, an) \<Rightarrow>
          let doc_id = ''doc_'' @ str_nat (processed_docs st + 1);
              s1 = (ls_session st)\<lparr>documents :=
                      AList.update doc_id
                        \<lparr>metadata = md, sections = secs, analysis = an, file_path = fp\<rparr>
                        (documents (ls_session st))\<rparr>;
              score = (case overall_compliance_score an of None \<Rightarrow> 0 | Some v \<Rightarrow> v);
              issues = (case critical_issues_count an of None \<Rightarrow> 0 | Some v \<Rightarrow> v);
              s2 = s1\<lparr>compliance_reports :=
                      AList.update doc_id \<lparr>compliance_score = score, issues_count = issues\<rparr>
                        (compliance_reports s1)\<rparr>
          in \<lparr>ls_session = s2,
              results = results st @
                [\<lparr>r_document = filename md, r_type = document_type md,
                  r_confidence = confidence_score md, r_compliance_score = score,
                  r_issues_count = issues, r_error = None\<rparr>],
              total_issues = total_issues st + issues,
              total_compliance_score = fadd fa (total_compliance_score st) score,
              processed_docs = processed_docs st + 1\<rparr>)"

fun process_files ::
  "float_arith \<Rightarrow> document_processor \<Rightarrow> string list \<Rightarrow> loop_state \<Rightarrow> loop_state" where
  "process_files fa dp [] st = st"
| "process_files fa dp (fp # fps) st = process_files fa dp fps (process_file fa dp st fp)"

definition initial_loop_state :: "session \<Rightarrow> loop_state" where
  "initial_loop_state s =
     \<lparr>ls_session = s, results = [], total_issues = 0, total_compliance_score = 0,
      processed_docs = 0\<rparr>"

definition avg_compliance :: "float_arith \<Rightarrow> loop_state \<Rightarrow> rat" where
  "avg_compliance fa st =
     (if processed_docs st > 0 then fdiv fa (total_compliance_score st) (processed_docs st) else 0)"

definition render_result :: "(rat \<Rightarrow> string) \<Rightarrow> result_entry \<Rightarrow> string" where
  "render_result fmt2f r =
     (case r_error r of
        None \<Rightarrow>
          ''\<newline>- **'' @ r_document r @ ''**\<newline>  - Type: '' @ r_type r @ '' (Confidence: ''
            @ fmt2f (r_confidence r) @ '')\<newline>  - Compliance Score: ''
            @ fmt2f (r_compliance_score r) @ ''\<newline>  - Issues: '' @ str_int (r_issues_count r)
            @ ''\<newline>''
      | Some err \<Rightarrow> ''\<newline>- **'' @ r_document r @ ''** - ERROR: '' @ err @ ''\<newline>'')"

definition summary_header :: "(rat \<Rightarrow> string) \<Rightarrow> float_arith \<Rightarrow> loop_state \<Rightarrow> string" where
  "summary_header fmt2f fa st =
     ''\<newline>## Document Processing Summary\<newline>\<newline>**Documents Processed:** ''
       @ str_nat (processed_docs st)
       @ ''\<newline>**Average Compliance Score:** '' @ fmt2f (avg_compliance fa st) @ ''/1.0''
       @ ''\<newline>**Total Issues Found:** '' @ str_int (total_issues st)
       @ ''\<newline>**Session ID:** '' @ session_id (ls_session st)
       @ ''\<newline>\<newline>### Document Details:\<newline>''"

definition render_summary :: "(rat \<Rightarrow> string) \<Rightarrow> float_arith \<Rightarrow> loop_state \<Rightarrow> string" where
  "render_summary fmt2f fa st =
     summary_header fmt2f fa st @ concat (map (render_result fmt2f) (results st))"

subsection \<open>Detailed analysis and recommendations\<close>

text \<open>\<^verbatim>\<open>self.current_session['compliance_reports'][doc_id]\<close>: a missing key raises.\<close>

definition lookup_report :: "session \<Rightarrow> string \<Rightarrow> exn + compliance_entry" where
  "lookup_report s doc_id =
     (case map_of (compliance_reports s) doc_id of
        None \<Rightarrow> Inl (PyExn ''KeyError'' (repr_str doc_id))
      | Some cd \<Rightarrow> Inr cd)"

definition render_sections :: "DocumentSection list \<Rightarrow> string" where
  "render_sections secs =
     (if secs = [] then []
      else ''**Section Analysis:**\<newline>''
        @ concat (map (\<lambda>sec. ''- '' @ title sec @ '': '' @ compliance_status sec @ '' (''
                          @ legal_importance sec @ '')\<newline>'') (take 5 secs))
        @ (if length secs > 5
           then ''- ... and '' @ str_nat (length secs - 5) @ '' more sections\<newline>'' else [])
        @ ''\<newline>'')"

definition render_document :: "(rat \<Rightarrow> string) \<Rightarrow> doc_entry \<Rightarrow> compliance_entry \<Rightarrow> string" where
  "render_document fmt2f doc_data cd =
     ''### '' @ filename (metadata doc_data) @ ''\<newline>\<newline>''
     @ ''**Document Type:** '' @ document_type (metadata doc_data) @ ''\<newline>''
     @ ''**Word Count:** '' @ str_int (word_count (metadata doc_data)) @ ''\<newline>''
     @ ''**Sections:** '' @ str_nat (length (sections doc_data)) @ ''\<newline>''
     @ ''**Compliance Score:** '' @ fmt2f (compliance_score cd) @ ''\<newline>\<newline>''
     @ render_sections (sections doc_data)
     @ (if issues_count cd > 0
        then ''**Issues Found:** '' @ str_int (issues_count cd) @ ''\<newline>\<newline>'' else [])
     @ ''---\<newline>\<newline>''"

fun detailed_loop ::
  "(rat \<Rightarrow> string) \<Rightarrow> session \<Rightarrow> (string \<times> doc_entry) list \<Rightarrow> string \<Rightarrow> exn + string" where
  "detailed_loop fmt2f s [] acc = Inr acc"
| "detailed_loop fmt2f s ((doc_id, doc_data) # rest) acc =
     (case lookup_report s doc_id of
        Inl e \<Rightarrow> Inl e
      | Inr cd \<Rightarrow> detailed_loop fmt2f s rest (acc @ render_document fmt2f doc_data cd))"

text \<open>\<^verbatim>\<open>_generate_detailed_analysis\<close>\<close>

definition generate_detailed_analysis :: "(rat \<Rightarrow> string) \<Rightarrow> session \<Rightarrow> exn + string" where
  "generate_detailed_analysis fmt2f s =
     (if documents s = [] then Inr ''No documents processed yet.''
      else detailed_loop fmt2f s (documents s) ''## Detailed Document Analysis\<newline>\<newline>'')"

text \<open>The first loop of \<^verbatim>\<open>_generate_recommendations\<close>: \<^verbatim>\<open>all_compliance_scores\<close> and
  \<^verbatim>\<open>total_issues\<close>.\<close>

fun collect_scores ::
  "session \<Rightarrow> (string \<times> doc_entry) list \<Rightarrow> rat list \<times> int \<Rightarrow> exn + (rat list \<times> int)" where
  "collect_scores s [] acc = Inr acc"
| "collect_scores s ((doc_id, doc_data) # rest) (scores, issues) =
     (case lookup_report s doc_id of
        Inl e \<Rightarrow> Inl e
      | Inr cd \<Rightarrow> collect_scores s rest (scores @ [compliance_score cd], issues + issues_count cd))"

text \<open>\<^verbatim>\<open>sum(xs) / len(xs) if xs else 0\<close>\<close>

definition mean :: "float_arith \<Rightarrow> rat list \<Rightarrow> rat" where
  "mean fa xs = (if xs \<noteq> [] then fdiv fa (fsum fa xs) (length xs) else 0)"

definition required_docs :: "string list" where
  "required_docs = [''Articles of Association'', ''Memorandum of Association'', ''UBO Declaration Form'']"

definition doc_types :: "session \<Rightarrow> string list" where
  "doc_types s = map (\<lambda>(doc_id, doc_data). document_type (metadata doc_data)) (documents s)"

definition missing_docs :: "session \<Rightarrow> string list" where
  "missing_docs s = filter (\<lambda>doc. doc \<notin> set (doc_types s)) required_docs"

definition issues_block :: "int \<Rightarrow> string" where
  "issues_block issues =
     (if issues > 0
      then ''1. **Address '' @ str_int issues @ '' Issues Found**\<newline>''
           @ ''   - Review all flagged sections for compliance\<newline>\<newline>''
      else [])"

definition compliance_block :: "float_arith \<Rightarrow> rat \<Rightarrow> string" where
  "compliance_block fa avg =
     (if avg < literal_0_7 fa
      then ''2. **Improve Overall Compliance**\<newline>''
           @ ''   - Current average compliance score is below recommended threshold\<newline>''
           @ ''   - Focus on jurisdiction clauses and required sections\<newline>\<newline>''
      else [])"

definition missing_block :: "string list \<Rightarrow> string" where
  "missing_block missing =
     (if missing \<noteq> []
      then ''3. **Complete Required Documents**\<newline>''
           @ ''   - Missing: '' @ join '', '' missing @ ''\<newline>\<newline>''
      else [])"

definition general_recommendations :: string where
  "general_recommendations =
     ''### General Recommendations\<newline>\<newline>''
     @ ''- Ensure all jurisdiction clauses specify ADGM Courts\<newline>''
     @ ''- Verify all documents are signed and dated\<newline>''
     @ ''- Review beneficial ownership declarations for completeness\<newline>''
     @ ''- Confirm registered office address is within ADGM\<newline>''"

text \<open>\<^verbatim>\<open>_generate_recommendations\<close>\<close>

definition generate_recommendations :: "float_arith \<Rightarrow> session \<Rightarrow> exn + string" where
  "generate_recommendations fa s =
     (if documents s = [] then Inr ''No documents processed yet.''
      else (case collect_scores s (documents s) ([], 0) of
              Inl e \<Rightarrow> Inl e
            | Inr (all_compliance_scores, issues) \<Rightarrow>
                Inr (''## Recommendations\<newline>\<newline>''
                     @ ''### Priority Actions\<newline>\<newline>''
                     @ issues_block issues
                     @ compliance_block fa (mean fa all_compliance_scores)
                     @ missing_block (missing_docs s)
                     @ general_recommendations)))"

text \<open>
  \<^verbatim>\<open>process_uploaded_documents\<close>. The argument is \<open>None\<close> for Python's \<^verbatim>\<open>None\<close>. The result
  is the agent with its mutated session and the returned triple. An exception of the two
  generators is caught by the outer handler, after the loop has already changed the session.
\<close>

definition process_uploaded_documents ::
  "(rat \<Rightarrow> string) \<Rightarrow> float_arith \<Rightarrow> agent \<Rightarrow> string list option
     \<Rightarrow> agent \<times> string \<times> string \<times> string" where
  "process_uploaded_documents fmt2f fa a files =
     (case files of
        None \<Rightarrow> (a, ''No files uploaded'', [], [])
      | Some fps \<Rightarrow>
          if fps = [] then (a, ''No files uploaded'', [], [])
          else
            let st = process_files fa (document_processor a) fps
                       (initial_loop_state (current_session a));
                a' = a\<lparr>current_session := ls_session st\<rparr>
            in (case generate_detailed_analysis fmt2f (ls_session st) of
                  Inl e \<Rightarrow> (a', ''Error processing documents: '' @ exn_str e, [], [])
                | Inr detailed_analysis \<Rightarrow>
                    (case generate_recommendations fa (ls_session st) of
                       Inl e \<Rightarrow> (a', ''Error processing documents: '' @ exn_str e, [], [])
                     | Inr recommendations \<Rightarrow>
                         (a', render_summary fmt2f fa st, detailed_analysis, recommendations))))"

subsection \<open>Question answering\<close>

definition render_response :: "(rat \<Rightarrow> string) \<Rightarrow> string \<Rightarrow> RAGResponse \<Rightarrow> string" where
  "render_response fmt2f question response =
     ''\<newline>## '' @ question @ ''\<newline>\<newline>**Answer:** '' @ answer response
     @ ''\<newline>\<newline>**Confidence:** '' @ fmt2f (response_confidence_score response)
     @ ''\<newline>\<newline>**ADGM References:**\<newline>''
     @ (if adgm_references response \<noteq> []
        then join ''\<newline>'' (map (\<lambda>ref. ''- '' @ ref) (adgm_references response))
        else ''- No specific references found'')
     @ ''\<newline>\<newline>**Related Topics:**\<newline>''
     @ (if related_topics response \<noteq> []
        then join ''\<newline>'' (map (\<lambda>topic. ''- '' @ topic) (related_topics response))
        else ''- None identified'')
     @ ''\<newline>\<newline>**Sources Used:**\<newline>''
     @ (if sources response \<noteq> []
        then join ''\<newline>''
               (map (\<lambda>src. ''- '' @ source src @ '' (Relevance: '' @ fmt2f (relevance_score src) @ '')'')
                  (take 3 (sources response)))
        else ''- No sources available'')
     @ ''\<newline>''"

definition no_information_message :: string where
  "no_information_message =
     ''I couldn't find relevant information in the ADGM knowledge base. Please try rephrasing your question.''"

text \<open>The \<^verbatim>\<open>try\<close> body of \<^verbatim>\<open>ask_adgm_question\<close>.\<close>

definition ask_adgm_question_body :: "(rat \<Rightarrow> string) \<Rightarrow> agent \<Rightarrow> string \<Rightarrow> exn + string" where
  "ask_adgm_question_body fmt2f a question =
     (if strip question = [] then Inr ''Please enter a question about ADGM compliance or regulations.''
      else (case retrieve_relevant_context (rag_system a) question 5 of
              Inl e \<Rightarrow> Inl e
            | Inr context \<Rightarrow>
                if context = [] then Inr no_information_message
                else (case generate_response (rag_system a) question context of
                        Inl e \<Rightarrow> Inl e
                      | Inr response \<Rightarrow> Inr (render_response fmt2f question response))))"

text \<open>\<^verbatim>\<open>ask_adgm_question\<close>: the body under its \<^verbatim>\<open>except Exception\<close> handler. \<open>Inl\<close> would
  be an exception that reaches the caller.\<close>

definition ask_adgm_question :: "(rat \<Rightarrow> string) \<Rightarrow> agent \<Rightarrow> string \<Rightarrow> exn + string" where
  "ask_adgm_question fmt2f a question =
     (case ask_adgm_question_body fmt2f a question of
        Inl e \<Rightarrow> Inr (''Error processing question: '' @ exn_str e)
      | Inr text \<Rightarrow> Inr text)"

subsection \<open>Analytics dashboard and export\<close>

definition render_analytics :: "(rat \<Rightarrow> string) \<Rightarrow> analytics_dict \<Rightarrow> string" where
  "render_analytics fmt2f analytics =
     (let summary = (case summary_stats analytics of
                       None \<Rightarrow> \<lparr>ss_total_documents = None, ss_average_compliance_score = None,
                                 ss_total_issues = None, ss_critical_issues = None\<rparr>
                     | Some d \<Rightarrow> d);
          get_int = (\<lambda>v. case v of None \<Rightarrow> 0 | Some (i::int) \<Rightarrow> i);
          get_rat = (\<lambda>v. case v of None \<Rightarrow> 0 | Some (r::rat) \<Rightarrow> r);
          performance = performance_metrics analytics
      in ''## Analytics Dashboard\<newline>\<newline>''
         @ ''**Total Documents:** '' @ str_int (get_int (ss_total_documents summary)) @ ''\<newline>''
         @ ''**Average Compliance Score:** ''
         @ fmt2f (get_rat (ss_average_compliance_score summary)) @ ''\<newline>''
         @ ''**Total Issues:** '' @ str_int (get_int (ss_total_issues summary)) @ ''\<newline>''
         @ ''**Critical Issues:** '' @ str_int (get_int (ss_critical_issues summary))
         @ ''\<newline>\<newline>''
         @ (if document_type_counts analytics \<noteq> []
            then ''**Document Types:**\<newline>''
                 @ concat (map (\<lambda>(doc_type, n). ''- '' @ doc_type @ '': '' @ str_int n @ ''\<newline>'')
                             (document_type_counts analytics))
                 @ ''\<newline>''
            else [])
         @ (if list_ex (\<lambda>(sev, n). n \<noteq> 0) (severity_distribution analytics)
            then ''**Issues by Severity:**\<newline>''
                 @ concat (map (\<lambda>(sev, n). if n > 0
                                  then ''- '' @ str_title sev @ '': '' @ str_int n @ ''\<newline>'' else [])
                             (severity_distribution analytics))
                 @ ''\<newline>''
            else [])
         @ (if performance \<noteq> []
            then ''**Performance Metrics:**\<newline>''
                 @ ''- Quality Score: '' @ fmt2f (get_rat (map_of performance ''quality_score''))
                 @ ''\<newline>''
                 @ ''- Compliance Rate: '' @ fmt2f (get_rat (map_of performance ''compliance_rate''))
                 @ ''\<newline>''
                 @ ''- High Confidence Rate: ''
                 @ fmt2f (get_rat (map_of performance ''high_confidence_rate'')) @ ''\<newline>\<newline>''
            else []))"

definition render_insights :: "string list \<Rightarrow> string" where
  "render_insights insights =
     ''## Key Insights\<newline>\<newline>''
     @ (if insights \<noteq> [] then concat (map (\<lambda>insight. ''- '' @ insight @ ''\<newline>'') insights)
        else ''No specific insights generated.\<newline>'')"

text \<open>The \<^verbatim>\<open>try\<close> body of \<^verbatim>\<open>generate_analytics_dashboard\<close>: each of the two calls reads the
  attribute \<^verbatim>\<open>self.analytics_engine\<close> first.\<close>

definition generate_analytics_dashboard_body ::
  "(rat \<Rightarrow> string) \<Rightarrow> agent \<Rightarrow> exn + (string \<times> string)" where
  "generate_analytics_dashboard_body fmt2f a =
     (if documents (current_session a) = [] then Inr (''No documents processed yet.'', [])
      else (case get_analytics_engine a of
              Inl e \<Rightarrow> Inl e
            | Inr engine \<Rightarrow>
                (case engine_generate_analytics_dashboard engine (current_session a) of
                   Inl e \<Rightarrow> Inl e
                 | Inr analytics \<Rightarrow>
                     (case get_analytics_engine a of
                        Inl e \<Rightarrow> Inl e
                      | Inr engine2 \<Rightarrow>
                          (case engine_generate_insights engine2 (current_session a) of
                             Inl e \<Rightarrow> Inl e
                           | Inr insights \<Rightarrow>
                               Inr (render_analytics fmt2f analytics, render_insights insights))))))"

definition generate_analytics_dashboard :: "(rat \<Rightarrow> string) \<Rightarrow> agent \<Rightarrow> string \<times> string" where
  "generate_analytics_dashboard fmt2f a =
     (case generate_analytics_dashboard_body fmt2f a of
        Inl e \<Rightarrow> (''Error generating analytics: '' @ exn_str e, [])
      | Inr r \<Rightarrow> r)"

definition export_results_body :: "agent \<Rightarrow> string \<Rightarrow> exn + (string \<times> string)" where
  "export_results_body a export_format =
     (if documents (current_session a) = [] then Inr ([], ''No documents to export'')
      else (case get_export_manager a of
              Inl e \<Rightarrow> Inl e
            | Inr manager \<Rightarrow> export_processed_documents manager (current_session a) export_format))"

text \<open>\<^verbatim>\<open>export_results\<close>: the pair is (file path, message).\<close>

definition export_results :: "agent \<Rightarrow> string \<Rightarrow> string \<times> string" where
  "export_results a export_format =
     (case export_results_body a export_format of
        Inl e \<Rightarrow> ([], ''Export failed: '' @ exn_str e)
      | Inr r \<Rightarrow> r)"

subsection \<open>Compliance scorer and red-flag detector\<close>

text \<open>
  The application imports the modules \<^verbatim>\<open>src.document_processor\<close>,
  \<^verbatim>\<open>src.compliance_checker\<close> and \<^verbatim>\<open>src.red_flag_detector\<close> and only calls them; their
  code is missing. The definitions of this subsection follow the specification, sections
  3, 4.2 and 4.3.
\<close>

datatype severity = Critical | High | Medium | Low

datatype rule_status = Unchecked | Satisfied | Violated | NotApplicable

text \<open>Modelled from the spec: the Section of the data model (the section class of the
  missing document processor), with its body text and position index.\<close>

record spec_section =
  sec_title :: string
  sec_body :: string
  sec_position :: nat
  sec_importance :: string
  sec_status :: string

text \<open>Modelled from the spec: a Rule of the Rule Catalog (missing compliance checker); the
  required-pattern predicate is a predicate on the text it is evaluated against.\<close>

record rule =
  rule_id :: string
  applicable_types :: "string list"
  required_pattern :: "string \<Rightarrow> bool"
  rule_severity :: severity
  remediation :: string

text \<open>Modelled from the spec: rule evaluation of the missing compliance scorer. A rule is
  NotApplicable if its target document type does not match; otherwise its predicate is
  evaluated against the concatenated text of all sections.\<close>

definition evaluate_rule :: "string \<Rightarrow> spec_section list \<Rightarrow> rule \<Rightarrow> rule_status" where
  "evaluate_rule doc_type secs r =
     (if doc_type \<notin> set (applicable_types r) then NotApplicable
      else if required_pattern r (concat (map sec_body secs)) then Satisfied
      else Violated)"

text \<open>Modelled from the spec: the partial ComplianceReport the missing scorer produces.\<close>

record ComplianceReport =
  overall_score :: rat
  violated_rule_ids :: "string list"
  report_critical_issues_count :: nat

text \<open>A set of rule identifiers, kept as a list without repetitions: an identifier that is
  already there is not added again.\<close>

definition add_id :: "string \<Rightarrow> string list \<Rightarrow> string list" where
  "add_id x xs = (if x \<in> set xs then xs else xs @ [x])"

record score_state =
  n_satisfied :: nat
  n_violated :: nat
  violated_acc :: "string list"
  critical_acc :: "string list"

text \<open>Modelled from the spec: one step of the missing scorer, taking one rule of the catalog
  from Unchecked to its status. The report keeps the set of violated rule identifiers; a
  Violated rule of severity Critical additionally counts towards the critical issues, once
  per rule identifier however often the rule is matched.\<close>

definition score_step :: "string \<Rightarrow> spec_section list \<Rightarrow> score_state \<Rightarrow> rule \<Rightarrow> score_state" where
  "score_step doc_type secs st r =
     (case evaluate_rule doc_type secs r of
        Satisfied \<Rightarrow> st\<lparr>n_satisfied := n_satisfied st + 1\<rparr>
      | Violated \<Rightarrow>
          st\<lparr>n_violated := n_violated st + 1,
             violated_acc := add_id (rule_id r) (violated_acc st),
             critical_acc := (if rule_severity r = Critical then add_id (rule_id r) (critical_acc st)
                              else critical_acc st)\<rparr>
      | _ \<Rightarrow> st)"

text \<open>Modelled from the spec: \<^verbatim>\<open>score(document_type, classified_sections)\<close> of the missing
  scorer. Overall score = Satisfied / (Satisfied + Violated), defined as 1.0 when no
  applicable rules exist for the document type; the critical issues count is the number of
  Critical-severity violated rules.\<close>

definition score :: "rule list \<Rightarrow> string \<Rightarrow> spec_section list \<Rightarrow> ComplianceReport" where
  "score catalog doc_type secs =
     (let st = foldl (score_step doc_type secs)
                 \<lparr>n_satisfied = 0, n_violated = 0, violated_acc = [], critical_acc = []\<rparr> catalog
      in \<lparr>overall_score =
             (if n_satisfied st + n_violated st = 0 then 1
              else of_nat (n_satisfied st) / of_nat (n_satisfied st + n_violated st)),
          violated_rule_ids = violated_acc st,
          report_critical_issues_count = length (critical_acc st)\<rparr>)"

text \<open>Modelled from the spec: the analysis dict the missing document processor hands to the
  application for a report of the scorer.\<close>

definition analysis_of_report :: "ComplianceReport \<Rightarrow> analysis_dict" where
  "analysis_of_report rep =
     \<lparr>overall_compliance_score = Some (overall_score rep),
      critical_issues_count = Some (int (report_critical_issues_count rep))\<rparr>"

text \<open>Modelled from the spec: the location reference of a RedFlag (section index or
  document-level).\<close>

datatype location = SectionIndex nat | DocumentLevel

text \<open>Modelled from the spec: the RedFlag of the missing red-flag detector.\<close>

record RedFlag =
  flag_severity :: severity
  description :: string
  flag_location :: location
  suggestion :: string

text \<open>Modelled from the spec: the five detection categories of the missing red-flag
  detector and the severity each one emits.\<close>

datatype category =
  JurisdictionMismatch | AmbiguousLanguage | MissingRequiredSection
  | IncompleteOwnershipDisclosure | MissingSignatureBlock

fun category_severity :: "category \<Rightarrow> severity" where
  "category_severity JurisdictionMismatch = Critical"
| "category_severity AmbiguousLanguage = Medium"
| "category_severity MissingRequiredSection = High"
| "category_severity IncompleteOwnershipDisclosure = Critical"
| "category_severity MissingSignatureBlock = High"

text \<open>What one category detector reports for a finding: description, location, remediation.\<close>

type_synonym finding = "string \<times> location \<times> string"

text \<open>Each category detector is a pure function of (document type, section list); the
  patterns it looks for are not fixed by the specification, so the detectors are a
  parameter.\<close>

type_synonym detectors = "category \<Rightarrow> string \<Rightarrow> spec_section list \<Rightarrow> finding list"

definition flag_of :: "category \<Rightarrow> finding \<Rightarrow> RedFlag" where
  "flag_of c f =
     (case f of (d, loc, sug) \<Rightarrow>
        \<lparr>flag_severity = category_severity c, description = d, flag_location = loc, suggestion = sug\<rparr>)"

text \<open>Modelled from the spec: the findings of all categories of the missing detector, each
  category independently evaluated.\<close>

definition all_findings :: "detectors \<Rightarrow> string \<Rightarrow> spec_section list \<Rightarrow> RedFlag list" where
  "all_findings ds doc_type secs =
     concat (map (\<lambda>c. map (flag_of c) (ds c doc_type secs))
       [JurisdictionMismatch, AmbiguousLanguage, MissingRequiredSection,
        IncompleteOwnershipDisclosure, MissingSignatureBlock])"

fun severity_rank :: "severity \<Rightarrow> nat" where
  "severity_rank Critical = 0"
| "severity_rank High = 1"
| "severity_rank Medium = 2"
| "severity_rank Low = 3"

text \<open>The sort key: severity (most severe first), then section position. The specification
  does not place document-level findings among the section positions; here they follow
  the section-level findings of the same severity.\<close>

fun flag_key :: "RedFlag \<Rightarrow> nat \<times> nat \<times> nat" where
  "flag_key f =
     (severity_rank (flag_severity f),
      (case flag_location f of SectionIndex i \<Rightarrow> (0, i) | DocumentLevel \<Rightarrow> (1, 0)))"

text \<open>Modelled from the spec: \<^verbatim>\<open>detect(document_type, classified_sections)\<close> of the missing
  red-flag detector, ordered by descending severity then by section position ascending,
  in a stable order.\<close>

definition detect :: "detectors \<Rightarrow> string \<Rightarrow> spec_section list \<Rightarrow> RedFlag list" where
  "detect ds doc_type secs = sort_key flag_key (all_findings ds doc_type secs)"

subsection \<open>Session invariant and sample data\<close>

text \<open>Every stored document has a stored compliance report: the two dicts are written
  together by the loop, so the sessions the agent builds satisfy this.\<close>

definition reports_cover :: "session \<Rightarrow> bool" where
  "reports_cover s = (fst ` set (documents s) \<subseteq> fst ` set (compliance_reports s))"

text \<open>A two-decimal formatter for the sample sessions: the exact rational, rounded half to
  even.\<close>

definition round_half_even :: "rat \<Rightarrow> int" where
  "round_half_even x =
     (let f = \<lfloor>x\<rfloor>; d = x - of_int f
      in if d < 1 / 2 then f else if 1 / 2 < d then f + 1 else if even f then f else f + 1)"

definition sample_fmt2f :: "rat \<Rightarrow> string" where
  "sample_fmt2f x =
     (let n = nat (round_half_even (\<bar>x\<bar> * 100))
      in (if x < 0 then ''-'' else []) @ str_nat (n div 100) @ ''.''
         @ [digit_char (n mod 100 div 10), digit_char (n mod 10)])"

text \<open>Arithmetic for the sample sessions: sums and quotients are exact, which is what
  binary floating point returns wherever the exact result is representable, as it is at
  every value of the sample sessions; the literal is the double nearest to 7/10.\<close>

definition sample_arith :: float_arith where
  "sample_arith =
     \<lparr>fadd = (\<lambda>x y. x + y), fsum = sum_list, fdiv = (\<lambda>x n. x / of_nat n),
      literal_0_7 = 3152519739159347 / 4503599627370496\<rparr>"

text \<open>A document processor that knows two files and raises on every other path.\<close>

definition sample_processor :: document_processor where
  "sample_processor fp =
     (if fp = ''/tmp/aoa.docx''
      then Inr (\<lparr>filename = ''aoa.docx'', document_type = ''Articles of Association'',
                 confidence_score = 3 / 4, word_count = 1200\<rparr>,
                [\<lparr>title = ''Registered Office'', compliance_status = ''compliant'',
                  legal_importance = ''critical''\<rparr>],
                \<lparr>overall_compliance_score = Some 1, critical_issues_count = Some 0\<rparr>)
      else if fp = ''/tmp/board.docx''
      then Inr (\<lparr>filename = ''board.docx'', document_type = ''Board Resolution'',
                 confidence_score = 1 / 2, word_count = 300\<rparr>,
                [],
                \<lparr>overall_compliance_score = Some (1 / 2), critical_issues_count = Some 2\<rparr>)
      else Inl (PyExn ''ValueError'' ''Error processing document''))"

definition sample_rag :: rag_system_obj where
  "sample_rag =
     \<lparr>retrieve_relevant_context = (\<lambda>question k. Inr []),
      generate_response = (\<lambda>question context. Inl (PyExn ''RuntimeError'' ''no completion''))\<rparr>"

definition sample_getenv :: "string \<Rightarrow> string option" where
  "sample_getenv name = (if name = ''OPENAI_API_KEY'' then Some ''sk-test'' else None)"

text \<open>The agent \<^verbatim>\<open>__init__\<close> builds in the sample environment.\<close>

definition sample_agent :: agent where
  "sample_agent =
     \<lparr>openai_api_key = ''sk-test'',
      document_processor = sample_processor,
      rag_system = sample_rag,
      current_session =
        \<lparr>documents = [], analysis_results = [], compliance_reports = [],
         session_id = ''session_20250101_120000''\<rparr>,
      supported_document_types =
        [(''Articles of Association'', ''articles_of_association''),
         (''Memorandum of Association'', ''memorandum_of_association''),
         (''UBO Declaration Form'', ''ubo_declaration''),
         (''Board Resolution'', ''board_resolution''),
         (''Incorporation Application'', ''incorporation_application''),
         (''Register of Members'', ''register_of_members''),
         (''Register of Directors'', ''register_of_directors''),
         (''Shareholder Resolution'', ''shareholder_resolution'')],
      analytics_engine = None,
      export_manager = None\<rparr>"

text \<open>The number of rules of the catalog that evaluate to a given status.\<close>

definition count_status :: "string \<Rightarrow> spec_section list \<Rightarrow> rule list \<Rightarrow> rule_status \<Rightarrow> nat" where
  "count_status doc_type secs catalog status =
     length (filter (\<lambda>r. evaluate_rule doc_type secs r = status) catalog)"

text \<open>A sample catalog, sample sections and a processor that reports the scorer's result.\<close>

definition sample_catalog :: "rule list" where
  "sample_catalog =
     [\<lparr>rule_id = ''AOA-JURISDICTION'', applicable_types = [''Articles of Association''],
       required_pattern = occurs_in ''ADGM Courts'', rule_severity = Critical,
       remediation = ''Name the ADGM Courts in the jurisdiction clause''\<rparr>,
      \<lparr>rule_id = ''AOA-OFFICE'', applicable_types = [''Articles of Association''],
       required_pattern = occurs_in ''registered office'', rule_severity = High,
       remediation = ''State the registered office''\<rparr>,
      \<lparr>rule_id = ''UBO-OWNER'', applicable_types = [''UBO Declaration Form''],
       required_pattern = occurs_in ''beneficial owner'', rule_severity = Critical,
       remediation = ''Declare every beneficial owner''\<rparr>]"

definition sample_sections :: "spec_section list" where
  "sample_sections =
     [\<lparr>sec_title = ''Governing law'', sec_body = ''Disputes go to the courts of England.'',
       sec_position = 0, sec_importance = ''Critical'', sec_status = ''Unchecked''\<rparr>,
      \<lparr>sec_title = ''Office'', sec_body = ''The registered office is in Abu Dhabi.'',
       sec_position = 1, sec_importance = ''Standard'', sec_status = ''Unchecked''\<rparr>]"

definition sample_scored_processor :: "string \<Rightarrow> document_processor" where
  "sample_scored_processor doc_type fp =
     Inr (\<lparr>filename = basename fp, document_type = doc_type, confidence_score = 1, word_count = 14\<rparr>,
          [],
          analysis_of_report (score sample_catalog doc_type sample_sections))"

text \<open>Sample category detectors with fixed findings.\<close>

definition sample_detectors :: detectors where
  "sample_detectors c doc_type secs =
     (case c of
        JurisdictionMismatch \<Rightarrow>
          [(''Courts of England named as venue'', SectionIndex 2, ''Name the ADGM Courts'')]
      | AmbiguousLanguage \<Rightarrow>
          [(''Hedging phrase in a critical section'', SectionIndex 0, ''Use binding language'')]
      | MissingRequiredSection \<Rightarrow>
          [(''No section on share capital'', DocumentLevel, ''Add the section'')]
      | IncompleteOwnershipDisclosure \<Rightarrow>
          [(''Beneficial owner without nationality'', SectionIndex 1, ''State the nationality'')]
      | MissingSignatureBlock \<Rightarrow> [])"

text \<open>The session statistics \<^verbatim>\<open>_generate_recommendations\<close> computes from the stored
  session: the compliance scores and the issue counts of the stored reports, one per stored
  document in dict order, and the missing required documents. Where a stored document has
  no report the code raises; the two lists below then hold 0 for it, and they are the
  values of the code whenever every stored document has a report
  (\<open>collect_scores_stored\<close>).\<close>

definition stored_scores :: "session \<Rightarrow> rat list" where
  "stored_scores s =
     map (\<lambda>(doc_id, doc_data).
            case map_of (compliance_reports s) doc_id of None \<Rightarrow> 0 | Some cd \<Rightarrow> compliance_score cd)
       (documents s)"

definition stored_issues :: "session \<Rightarrow> int" where
  "stored_issues s =
     sum_list (map (\<lambda>(doc_id, doc_data).
            case map_of (compliance_reports s) doc_id of None \<Rightarrow> 0 | Some cd \<Rightarrow> issues_count cd)
       (documents s))"

definition session_statistics :: "float_arith \<Rightarrow> session \<Rightarrow> rat \<times> int \<times> string list" where
  "session_statistics fa s = (mean fa (stored_scores s), stored_issues s, missing_docs s)"

text \<open>The compliance scores of the entries of \<^verbatim>\<open>results\<close> without an error, in order.\<close>

definition batch_scores :: "loop_state \<Rightarrow> rat list" where
  "batch_scores st = map r_compliance_score (filter (\<lambda>r. r_error r = None) (results st))"



section \<open>Properties\<close>

subsection \<open>Facts about the loop and the two generators\<close>





lemma reports_cover_process_file:
  "reports_cover (ls_session st) \<Longrightarrow> reports_cover (ls_session (process_file fa dp st fp))"
  by (auto simp: process_file_def reports_cover_def Let_def dom_update
      split: sum.splits prod.splits)

lemma reports_cover_process_files:
  "reports_cover (ls_session st) \<Longrightarrow> reports_cover (ls_session (process_files fa dp fps st))"
  by (induction fps arbitrary: st) (simp_all add: reports_cover_process_file)

lemma detailed_loop_ok:
  "fst ` set ds \<subseteq> fst ` set (compliance_reports s)
   \<Longrightarrow> \<exists>d. detailed_loop fmt2f s ds acc = Inr d"
  by (induction ds arbitrary: acc) (force simp: lookup_report_def map_of_eq_None_iff split: option.splits)+

lemma collect_scores_ok:
  "fst ` set ds \<subseteq> fst ` set (compliance_reports s)
   \<Longrightarrow> \<exists>d. collect_scores s ds acc = Inr d"
  by (induction ds arbitrary: acc) (force simp: lookup_report_def map_of_eq_None_iff split: option.splits)+

lemma generate_detailed_analysis_ok:
  "reports_cover s \<Longrightarrow> \<exists>d. generate_detailed_analysis fmt2f s = Inr d"
  using detailed_loop_ok[of "documents s" s] by (simp add: generate_detailed_analysis_def reports_cover_def)

lemma generate_recommendations_ok:
  "reports_cover s \<Longrightarrow> \<exists>d. generate_recommendations fa s = Inr d"
  using collect_scores_ok[of "documents s" s "([], 0)"] 
  by (auto simp add: generate_recommendations_def reports_cover_def)


lemma results_initial: "results (initial_loop_state s) = []"
  by (simp add: initial_loop_state_def)

lemma session_initial: "ls_session (initial_loop_state s) = s"
  by (simp add: initial_loop_state_def)

lemma sample_init:
  "init sample_getenv (Inr sample_processor) (\<lambda>key. Inr sample_rag) ''20250101_120000'' = Inr sample_agent"
  by (simp add: init_def sample_getenv_def sample_agent_def generate_session_id_def)

lemma init_no_engine:
  "init getenv mk_processor mk_rag now = Inr a \<Longrightarrow> analytics_engine a = None \<and> export_manager a = None"
  by (auto simp: init_def split: option.splits if_splits sum.splits)

lemma process_uploaded_documents_attrs:
  "analytics_engine (fst (process_uploaded_documents fmt2f fa a files)) = analytics_engine a
   \<and> export_manager (fst (process_uploaded_documents fmt2f fa a files)) = export_manager a"
  by (simp add: process_uploaded_documents_def Let_def split: option.splits sum.splits)

lemma batches_attrs:
  "analytics_engine (foldl (\<lambda>ag files. fst (process_uploaded_documents fmt2f fa ag files)) a batches)
     = analytics_engine a
   \<and> export_manager (foldl (\<lambda>ag files. fst (process_uploaded_documents fmt2f fa ag files)) a batches)
     = export_manager a"
  by (induction batches arbitrary: a) (simp_all add: process_uploaded_documents_attrs)

lemma sample_board_batch_documents:
  "map fst (documents (current_session
      (fst (process_uploaded_documents sample_fmt2f sample_arith sample_agent (Some [''/tmp/board.docx''])))))
   = [''doc_1'']"
  by (simp add: process_uploaded_documents_def Let_def sample_agent_def initial_loop_state_def
      process_file_def sample_processor_def str_nat.simps digit_char_def
      split: sum.splits)

lemma ask_adgm_question_returns: "\<exists>text. ask_adgm_question fmt2f a question = Inr text"
  by (simp add: ask_adgm_question_def split: sum.splits)

lemma strip_sample_question: "strip ''What is ADGM?'' \<noteq> []"
  by (simp add: strip_def is_space_def)

lemma evaluate_rule_cases:
  "evaluate_rule doc_type secs r = Satisfied \<or> evaluate_rule doc_type secs r = Violated
   \<or> evaluate_rule doc_type secs r = NotApplicable"
  by (simp add: evaluate_rule_def)

lemma set_add_id: "set (add_id x xs) = insert x (set xs)"
  by (auto simp: add_id_def)

lemma distinct_add_id: "distinct xs \<Longrightarrow> distinct (add_id x xs)"
  by (simp add: add_id_def)

lemma score_step_fields:
  "n_satisfied (score_step doc_type secs st r)
     = n_satisfied st + (if evaluate_rule doc_type secs r = Satisfied then 1 else 0)"
  "n_violated (score_step doc_type secs st r)
     = n_violated st + (if evaluate_rule doc_type secs r = Violated then 1 else 0)"
  "set (critical_acc (score_step doc_type secs st r))
     = set (critical_acc st)
       \<union> (if evaluate_rule doc_type secs r = Violated \<and> rule_severity r = Critical
          then {rule_id r} else {})"
  "distinct (critical_acc st) \<Longrightarrow> distinct (critical_acc (score_step doc_type secs st r))"
  by (simp_all add: score_step_def set_add_id distinct_add_id split: rule_status.splits)

lemma score_fold_counts:
  "n_satisfied (foldl (score_step doc_type secs) st catalog)
     = n_satisfied st + count_status doc_type secs catalog Satisfied
   \<and> n_violated (foldl (score_step doc_type secs) st catalog)
     = n_violated st + count_status doc_type secs catalog Violated"
proof (induction catalog arbitrary: st)
  case Nil
  then show ?case by (simp add: count_status_def)
next
  case (Cons r catalog)
  show ?case
    using Cons.IH [of "score_step doc_type secs st r"]
    by (simp add: score_step_fields count_status_def)
qed

lemma score_fold_critical:
  "distinct (critical_acc st) \<Longrightarrow>
   distinct (critical_acc (foldl (score_step doc_type secs) st catalog))
   \<and> set (critical_acc (foldl (score_step doc_type secs) st catalog))
     = set (critical_acc st)
       \<union> {rule_id r |r. r \<in> set catalog \<and> evaluate_rule doc_type secs r = Violated
                          \<and> rule_severity r = Critical}"
proof (induction catalog arbitrary: st)
  case Nil
  then show ?case by simp
next
  case (Cons r catalog)
  have d: "distinct (critical_acc (score_step doc_type secs st r))"
    using Cons.prems by (rule score_step_fields(4))
  show ?case
    using Cons.IH [OF d] by (auto simp: score_step_fields(3))
qed

lemma overall_score_formula:
  "overall_score (score catalog doc_type secs) =
     (if count_status doc_type secs catalog Satisfied + count_status doc_type secs catalog Violated = 0
      then 1
      else of_nat (count_status doc_type secs catalog Satisfied)
           / of_nat (count_status doc_type secs catalog Satisfied
                     + count_status doc_type secs catalog Violated))"
  by (simp add: score_def score_fold_counts Let_def)

lemma critical_count_card:
  "report_critical_issues_count (score catalog doc_type secs)
     = card {rule_id r |r. r \<in> set catalog \<and> evaluate_rule doc_type secs r = Violated
                          \<and> rule_severity r = Critical}"
proof -
  let ?st0 = "\<lparr>n_satisfied = 0, n_violated = 0, violated_acc = [], critical_acc = []\<rparr>"
  let ?acc = "critical_acc (foldl (score_step doc_type secs) ?st0 catalog)"
  have "distinct ?acc
        \<and> set ?acc = set (critical_acc ?st0)
            \<union> {rule_id r |r. r \<in> set catalog \<and> evaluate_rule doc_type secs r = Violated
                          \<and> rule_severity r = Critical}"
    by (rule score_fold_critical) simp
  then have "distinct ?acc"
    and "set ?acc = {rule_id r |r. r \<in> set catalog \<and> evaluate_rule doc_type secs r = Violated
                          \<and> rule_severity r = Critical}"
    by simp_all
  then have "length ?acc = card {rule_id r |r. r \<in> set catalog \<and> evaluate_rule doc_type secs r = Violated
                          \<and> rule_severity r = Critical}"
    using distinct_card [of ?acc] by simp
  then show ?thesis
    by (simp add: score_def Let_def)
qed

lemma critical_count_repeated:
  assumes "set extra \<subseteq> set catalog"
  shows "report_critical_issues_count (score (catalog @ extra) doc_type secs)
         = report_critical_issues_count (score catalog doc_type secs)"
proof -
  have "set (catalog @ extra) = set catalog" using assms by auto
  then show ?thesis unfolding critical_count_card by simp
qed

lemma no_applicable_counts:
  assumes "\<forall>r \<in> set catalog. doc_type \<notin> set (applicable_types r)"
  shows "count_status doc_type secs catalog Satisfied = 0 \<and> count_status doc_type secs catalog Violated = 0"
  using assms by (auto simp: count_status_def evaluate_rule_def filter_empty_conv)

lemma process_file_stores:
  assumes "dp fp = Inr (md, secs, an)"
  shows "map_of (compliance_reports (ls_session (process_file fa dp st fp)))
           (''doc_'' @ str_nat (processed_docs st + 1))
         = Some \<lparr>compliance_score = (case overall_compliance_score an of None \<Rightarrow> 0 | Some v \<Rightarrow> v),
                 issues_count = (case critical_issues_count an of None \<Rightarrow> 0 | Some v \<Rightarrow> v)\<rparr>"
  using assms by (simp add: process_file_def Let_def update_conv')

lemma flag_key_order:
  assumes "flag_key f \<le> flag_key g"
  shows "severity_rank (flag_severity f) \<le> severity_rank (flag_severity g)"
    and "flag_severity f = flag_severity g \<Longrightarrow> flag_location f = SectionIndex p
         \<Longrightarrow> flag_location g = SectionIndex q \<Longrightarrow> p \<le> q"
  using assms by (auto simp: less_eq_prod_def split: location.splits)

lemma sample_detect:
  "map description (detect sample_detectors ''UBO Declaration Form'' sample_sections)
     = [''Beneficial owner without nationality'', ''Courts of England named as venue'',
        ''No section on share capital'', ''Hedging phrase in a critical section'']"
  by code_simp

lemma str_nat_nonempty: "str_nat n \<noteq> []"
  by (subst str_nat.simps) simp

lemma digit_char_inj:
  assumes "a < 10" "b < 10" "digit_char a = digit_char b"
  shows "a = b"
proof -
  have d: "distinct ''0123456789''" by simp
  have "a < length ''0123456789''" "b < length ''0123456789''" using assms by simp_all
  with d assms(3) show ?thesis
    unfolding digit_char_def by (simp only: nth_eq_iff_index_eq)
qed

lemma str_nat_inj: "str_nat n = str_nat m \<Longrightarrow> n = m"
proof (induction n arbitrary: m rule: str_nat.induct)
  case (1 n)
  show ?case
  proof (cases "n < 10")
    case True
    show ?thesis
    proof (cases "m < 10")
      case m: True
      from "1.prems" True m have "digit_char n = digit_char m"
        by (simp add: str_nat.simps)
      with True m show ?thesis by (rule digit_char_inj)
    next
      case m: False
      from "1.prems" True m have "[digit_char n] = str_nat (m div 10) @ [digit_char (m mod 10)]"
        by (simp add: str_nat.simps [of n] str_nat.simps [of m])
      then have "str_nat (m div 10) = []" by simp
      with str_nat_nonempty show ?thesis by blast
    qed
  next
    case False
    show ?thesis
    proof (cases "m < 10")
      case m: True
      from "1.prems" False m have "str_nat (n div 10) @ [digit_char (n mod 10)] = [digit_char m]"
        by (simp add: str_nat.simps [of n] str_nat.simps [of m])
      then have "str_nat (n div 10) = []" by simp
      with str_nat_nonempty show ?thesis by blast
    next
      case m: False
      from "1.prems" False m
      have eq: "str_nat (n div 10) @ [digit_char (n mod 10)] = str_nat (m div 10) @ [digit_char (m mod 10)]"
        by (simp add: str_nat.simps [of n] str_nat.simps [of m])
      then have "str_nat (n div 10) = str_nat (m div 10)" by simp
      with "1.IH" False have q: "n div 10 = m div 10" by blast
      from eq have "digit_char (n mod 10) = digit_char (m mod 10)" by simp
      then have r: "n mod 10 = m mod 10" by (intro digit_char_inj) simp_all
      from q r show ?thesis by (metis div_mult_mod_eq)
    qed
  qed
qed

lemma doc_id_inj: "''doc_'' @ str_nat n = ''doc_'' @ str_nat m \<longleftrightarrow> n = m"
  using str_nat_inj by auto

lemma processed_docs_process_file:
  "processed_docs st \<le> processed_docs (process_file fa dp st fp)"
  by (simp add: process_file_def Let_def split: sum.splits prod.splits)

lemma process_file_keeps_earlier:
  assumes "n \<le> processed_docs st"
  shows "map_of (documents (ls_session (process_file fa dp st fp))) (''doc_'' @ str_nat n)
           = map_of (documents (ls_session st)) (''doc_'' @ str_nat n)
       \<and> map_of (compliance_reports (ls_session (process_file fa dp st fp))) (''doc_'' @ str_nat n)
           = map_of (compliance_reports (ls_session st)) (''doc_'' @ str_nat n)"
proof -
  have "str_nat (Suc (processed_docs st)) \<noteq> str_nat n"
    using assms str_nat_inj [of "Suc (processed_docs st)" n] by auto
  then show ?thesis
    by (simp add: process_file_def Let_def update_conv' split: sum.splits prod.splits)
qed

lemma process_files_keeps_earlier:
  assumes "n \<le> processed_docs st"
  shows "map_of (documents (ls_session (process_files fa dp fps st))) (''doc_'' @ str_nat n)
           = map_of (documents (ls_session st)) (''doc_'' @ str_nat n)
       \<and> map_of (compliance_reports (ls_session (process_files fa dp fps st))) (''doc_'' @ str_nat n)
           = map_of (compliance_reports (ls_session st)) (''doc_'' @ str_nat n)"
  using assms
proof (induction fps arbitrary: st)
  case Nil
  then show ?case by simp
next
  case (Cons fp fps)
  have "n \<le> processed_docs (process_file fa dp st fp)"
    using Cons.prems processed_docs_process_file [of st fa dp fp] by simp
  from Cons.IH [OF this] process_file_keeps_earlier [OF Cons.prems, where fa=fa and dp=dp and fp=fp]
  show ?case by simp
qed

lemma process_file_counters:
  assumes "results st' = results st" "total_issues st' = total_issues st"
    "total_compliance_score st' = total_compliance_score st" "processed_docs st' = processed_docs st"
  shows "results (process_file fa dp st' fp) = results (process_file fa dp st fp)
       \<and> total_issues (process_file fa dp st' fp) = total_issues (process_file fa dp st fp)
       \<and> total_compliance_score (process_file fa dp st' fp) = total_compliance_score (process_file fa dp st fp)
       \<and> processed_docs (process_file fa dp st' fp) = processed_docs (process_file fa dp st fp)"
  using assms by (simp add: process_file_def Let_def split: sum.splits prod.splits)

lemma process_files_counters:
  assumes "results st' = results st" "total_issues st' = total_issues st"
    "total_compliance_score st' = total_compliance_score st" "processed_docs st' = processed_docs st"
  shows "results (process_files fa dp fps st') = results (process_files fa dp fps st)
       \<and> total_issues (process_files fa dp fps st') = total_issues (process_files fa dp fps st)
       \<and> total_compliance_score (process_files fa dp fps st') = total_compliance_score (process_files fa dp fps st)
       \<and> processed_docs (process_files fa dp fps st') = processed_docs (process_files fa dp fps st)"
  using assms
proof (induction fps arbitrary: st st')
  case Nil
  then show ?case by simp
next
  case (Cons fp fps)
  have step: "results (process_file fa dp st' fp) = results (process_file fa dp st fp)
       \<and> total_issues (process_file fa dp st' fp) = total_issues (process_file fa dp st fp)
       \<and> total_compliance_score (process_file fa dp st' fp) = total_compliance_score (process_file fa dp st fp)
       \<and> processed_docs (process_file fa dp st' fp) = processed_docs (process_file fa dp st fp)"
    by (rule process_file_counters [OF Cons.prems])
  have "results (process_files fa dp fps (process_file fa dp st' fp))
          = results (process_files fa dp fps (process_file fa dp st fp))
       \<and> total_issues (process_files fa dp fps (process_file fa dp st' fp))
          = total_issues (process_files fa dp fps (process_file fa dp st fp))
       \<and> total_compliance_score (process_files fa dp fps (process_file fa dp st' fp))
          = total_compliance_score (process_files fa dp fps (process_file fa dp st fp))
       \<and> processed_docs (process_files fa dp fps (process_file fa dp st' fp))
          = processed_docs (process_files fa dp fps (process_file fa dp st fp))"
    using step by (intro Cons.IH) simp_all
  then show ?case by simp
qed

lemma process_file_absorbed:
  assumes same: "processed_docs st' = processed_docs st"
    and final: "ls_session st' = ls_session (process_files fa dp fps (process_file fa dp st fp))"
  shows "ls_session (process_file fa dp st' fp) = ls_session st'"
proof (cases "dp fp")
  case (Inl e)
  then show ?thesis by (simp add: process_file_def)
next
  case (Inr triple)
  obtain md secs an where triple: "triple = (md, secs, an)" by (cases triple) auto
  let ?k = "''doc_'' @ str_nat (processed_docs st + 1)"
  let ?u = "process_file fa dp st fp"
  have le: "processed_docs st + 1 \<le> processed_docs ?u"
    using Inr triple by (simp add: process_file_def Let_def)
  have d: "map_of (documents (ls_session ?u)) ?k
             = Some \<lparr>metadata = md, sections = secs, analysis = an, file_path = fp\<rparr>"
    using Inr triple by (simp add: process_file_def Let_def update_conv')
  have r: "map_of (compliance_reports (ls_session ?u)) ?k
             = Some \<lparr>compliance_score = (case overall_compliance_score an of None \<Rightarrow> 0 | Some v \<Rightarrow> v),
                     issues_count = (case critical_issues_count an of None \<Rightarrow> 0 | Some v \<Rightarrow> v)\<rparr>"
    using Inr triple by (simp add: process_file_def Let_def update_conv')
  from process_files_keeps_earlier [OF le, where fa=fa and dp=dp and fps=fps] d r final
  have d': "map_of (documents (ls_session st')) ?k
             = Some \<lparr>metadata = md, sections = secs, analysis = an, file_path = fp\<rparr>"
    and r': "map_of (compliance_reports (ls_session st')) ?k
             = Some \<lparr>compliance_score = (case overall_compliance_score an of None \<Rightarrow> 0 | Some v \<Rightarrow> v),
                     issues_count = (case critical_issues_count an of None \<Rightarrow> 0 | Some v \<Rightarrow> v)\<rparr>"
    by simp_all
  show ?thesis
    using Inr triple same update_triv [OF d'] update_triv [OF r']
    by (simp add: process_file_def Let_def)
qed

lemma process_files_absorbed:
  assumes "processed_docs st' = processed_docs st"
    and "ls_session st' = ls_session (process_files fa dp fps st)"
  shows "ls_session (process_files fa dp fps st') = ls_session (process_files fa dp fps st)"
  using assms
proof (induction fps arbitrary: st st')
  case Nil
  then show ?case by simp
next
  case (Cons fp fps)
  let ?u = "process_file fa dp st fp" and ?u' = "process_file fa dp st' fp"
  have final: "ls_session st' = ls_session (process_files fa dp fps ?u)"
    using Cons.prems(2) by simp
  have keep: "ls_session ?u' = ls_session st'"
    using Cons.prems(1) final by (rule process_file_absorbed)
  have cnt: "processed_docs ?u' = processed_docs ?u"
    using Cons.prems(1) by (simp add: process_file_def Let_def split: sum.splits prod.splits)
  have "ls_session (process_files fa dp fps ?u') = ls_session (process_files fa dp fps ?u)"
    using cnt keep final by (intro Cons.IH) simp_all
  then show ?case by simp
qed

lemma process_files_twice:
  "process_files fa dp fps (initial_loop_state (ls_session (process_files fa dp fps (initial_loop_state s))))
     = process_files fa dp fps (initial_loop_state s)"
proof -
  let ?st1 = "process_files fa dp fps (initial_loop_state s)"
  let ?st2 = "process_files fa dp fps (initial_loop_state (ls_session ?st1))"
  have "ls_session ?st2 = ls_session ?st1"
    by (rule process_files_absorbed) (simp_all add: initial_loop_state_def)
  moreover have "results ?st2 = results ?st1 \<and> total_issues ?st2 = total_issues ?st1
       \<and> total_compliance_score ?st2 = total_compliance_score ?st1
       \<and> processed_docs ?st2 = processed_docs ?st1"
    by (rule process_files_counters) (simp_all add: initial_loop_state_def)
  ultimately show ?thesis
    by (intro loop_state.equality) simp_all
qed




lemma reports_cover_init:
  "init getenv mk_processor mk_rag now = Inr a \<Longrightarrow> reports_cover (current_session a)"
  by (auto simp: init_def reports_cover_def split: option.splits if_splits sum.splits)

lemma reports_cover_process_uploaded_documents:
  "reports_cover (current_session a)
   \<Longrightarrow> reports_cover (current_session (fst (process_uploaded_documents fmt2f fa a files)))"
  using reports_cover_process_files
      [where st="initial_loop_state (current_session a)" and dp="document_processor a" and fa=fa]
  by (simp add: process_uploaded_documents_def Let_def session_initial split: option.splits sum.splits)

lemma reports_cover_batches:
  "reports_cover (current_session a)
   \<Longrightarrow> reports_cover (current_session
         (foldl (\<lambda>ag files. fst (process_uploaded_documents fmt2f fa ag files)) a batches))"
  by (induction batches arbitrary: a) (simp_all add: reports_cover_process_uploaded_documents)

lemma batch_scores_process_file:
  "batch_scores (process_file fa dp st fp)
     = batch_scores st @ (case dp fp of Inl e \<Rightarrow> []
         | Inr (md, secs, an) \<Rightarrow> [case overall_compliance_score an of None \<Rightarrow> 0 | Some v \<Rightarrow> v])"
  by (simp add: batch_scores_def process_file_def error_result_def Let_def split: sum.splits prod.splits)



lemma render_summary_average:
  "\<exists>pre post. render_summary fmt2f fa st
       = pre @ ''**Average Compliance Score:** '' @ fmt2f (avg_compliance fa st) @ ''/1.0'' @ post"
proof -
  have "render_summary fmt2f fa st
      = (''\<newline>## Document Processing Summary\<newline>\<newline>**Documents Processed:** ''
           @ str_nat (processed_docs st) @ ''\<newline>'')
        @ ''**Average Compliance Score:** '' @ fmt2f (avg_compliance fa st) @ ''/1.0''
        @ (''\<newline>**Total Issues Found:** '' @ str_int (total_issues st)
           @ ''\<newline>**Session ID:** '' @ session_id (ls_session st)
           @ ''\<newline>\<newline>### Document Details:\<newline>''
           @ concat (map (render_result fmt2f) (results st)))"
    by (simp add: render_summary_def summary_header_def)
  then show ?thesis by blast
qed


lemma totals_process_file:
  assumes "total_compliance_score st = foldl (fadd fa) 0 (batch_scores st)"
    and "processed_docs st = length (batch_scores st)"
  shows "total_compliance_score (process_file fa dp st fp)
           = foldl (fadd fa) 0 (batch_scores (process_file fa dp st fp))
       \<and> processed_docs (process_file fa dp st fp) = length (batch_scores (process_file fa dp st fp))"
  using assms unfolding batch_scores_process_file
  by (simp add: process_file_def Let_def split: sum.splits prod.splits)

lemma totals_process_files:
  assumes "total_compliance_score st = foldl (fadd fa) 0 (batch_scores st)"
    and "processed_docs st = length (batch_scores st)"
  shows "total_compliance_score (process_files fa dp fps st)
           = foldl (fadd fa) 0 (batch_scores (process_files fa dp fps st))
       \<and> processed_docs (process_files fa dp fps st) = length (batch_scores (process_files fa dp fps st))"
  using assms
proof (induction fps arbitrary: st)
  case Nil
  then show ?case by simp
next
  case (Cons fp fps)
  from totals_process_file [OF Cons.prems, where dp=dp and fp=fp]
  have "total_compliance_score (process_files fa dp fps (process_file fa dp st fp))
          = foldl (fadd fa) 0 (batch_scores (process_files fa dp fps (process_file fa dp st fp)))
       \<and> processed_docs (process_files fa dp fps (process_file fa dp st fp))
          = length (batch_scores (process_files fa dp fps (process_file fa dp st fp)))"
    by (intro Cons.IH) simp_all
  then show ?case by simp
qed

lemma avg_compliance_running:
  "avg_compliance fa (process_files fa dp fps (initial_loop_state s))
     = (if batch_scores (process_files fa dp fps (initial_loop_state s)) = [] then 0
        else fdiv fa (foldl (fadd fa) 0 (batch_scores (process_files fa dp fps (initial_loop_state s))))
               (length (batch_scores (process_files fa dp fps (initial_loop_state s)))))"
proof -
  let ?st = "process_files fa dp fps (initial_loop_state s)"
  have "total_compliance_score ?st = foldl (fadd fa) 0 (batch_scores ?st)
       \<and> processed_docs ?st = length (batch_scores ?st)"
    by (rule totals_process_files) (simp_all add: initial_loop_state_def batch_scores_def)
  then show ?thesis
    by (simp add: avg_compliance_def)
qed




lemma process_uploaded_documents_returns:
  assumes "fps \<noteq> []" "reports_cover (current_session a)"
  shows "\<exists>detailed recs.
           process_uploaded_documents fmt2f fa a (Some fps)
             = (a\<lparr>current_session :=
                     ls_session (process_files fa (document_processor a) fps
                                   (initial_loop_state (current_session a)))\<rparr>,
                render_summary fmt2f fa
                  (process_files fa (document_processor a) fps (initial_loop_state (current_session a))),
                detailed, recs)
           \<and> generate_recommendations fa
                (ls_session (process_files fa (document_processor a) fps
                               (initial_loop_state (current_session a)))) = Inr recs"
proof -
  let ?st = "process_files fa (document_processor a) fps (initial_loop_state (current_session a))"
  have "reports_cover (ls_session ?st)"
    using assms(2) by (intro reports_cover_process_files) (simp add: session_initial)
  then obtain d r where "generate_detailed_analysis fmt2f (ls_session ?st) = Inr d"
    and "generate_recommendations fa (ls_session ?st) = Inr r"
    using generate_detailed_analysis_ok generate_recommendations_ok by blast
  then show ?thesis
    using assms(1) by (simp add: process_uploaded_documents_def Let_def)
qed

lemma sample_critical_count:
  "report_critical_issues_count (score sample_catalog ''Articles of Association'' sample_sections) = 1"
  by code_simp




subsection \<open>Empty upload\<close>

text \<open>
  C10. Calling \<^verbatim>\<open>process_uploaded_documents\<close> with an empty list, or with \<^verbatim>\<open>None\<close>, returns
  exactly the triple ('No files uploaded', '', '') and leaves the agent, and with it every
  field of the session state (documents, analysis_results, compliance_reports,
  session_id), unchanged.
\<close>

theorem process_uploaded_documents_no_files:
  "process_uploaded_documents fmt2f fa a (Some []) = (a, ''No files uploaded'', [], [])
   \<and> process_uploaded_documents fmt2f fa a None = (a, ''No files uploaded'', [], [])"
  by (simp add: process_uploaded_documents_def)

subsection \<open>A failing document does not abort the batch\<close>



subsection \<open>Analytics and export on an agent built by the constructor\<close>

text \<open>
  C4. \<^verbatim>\<open>__init__\<close> assigns neither \<^verbatim>\<open>analytics_engine\<close> nor \<^verbatim>\<open>export_manager\<close>, and
  processing batches does not assign them either. So on every agent reached from the
  constructor by any sequence of batches, once the session holds at least one document,
  \<^verbatim>\<open>generate_analytics_dashboard\<close> returns the pair of the message 'Error generating
  analytics: ' followed by the text of the AttributeError and the empty string, and
  \<^verbatim>\<open>export_results\<close> returns the empty file path with the message 'Export failed: ' followed
  by the text of the AttributeError: never a dashboard, never an export file path.
\<close>

theorem analytics_and_export_unavailable:
  assumes created: "init getenv mk_processor mk_rag now = Inr a0"
    and reached: "a = foldl (\<lambda>ag files. fst (process_uploaded_documents fmt2f fa ag files)) a0 batches"
    and nonempty: "documents (current_session a) \<noteq> []"
  shows "generate_analytics_dashboard fmt2f' a
           = (''Error generating analytics: '' @ repr_str ''ADGMCorporateAgent''
                @ '' object has no attribute '' @ repr_str ''analytics_engine'', [])
       \<and> export_results a export_format
           = ([], ''Export failed: '' @ repr_str ''ADGMCorporateAgent''
                @ '' object has no attribute '' @ repr_str ''export_manager'')"
proof -
  have "analytics_engine a = None" and "export_manager a = None"
    using init_no_engine [OF created] batches_attrs [of fmt2f fa a0 batches] reached by simp_all
  then show ?thesis
    using nonempty
    by (simp add: generate_analytics_dashboard_def generate_analytics_dashboard_body_def
        export_results_def export_results_body_def get_analytics_engine_def
        get_export_manager_def attribute_error_def)
qed

theorem analytics_and_export_unavailable_witness:
  "init sample_getenv (Inr sample_processor) (\<lambda>key. Inr sample_rag) ''20250101_120000'' = Inr sample_agent
   \<and> documents (current_session
        (fst (process_uploaded_documents sample_fmt2f sample_arith sample_agent (Some [''/tmp/board.docx''])))) \<noteq> []
   \<and> generate_analytics_dashboard sample_fmt2f
        (fst (process_uploaded_documents sample_fmt2f sample_arith sample_agent (Some [''/tmp/board.docx''])))
       = (''Error generating analytics: '' @ repr_str ''ADGMCorporateAgent''
            @ '' object has no attribute '' @ repr_str ''analytics_engine'', [])
   \<and> export_results
        (fst (process_uploaded_documents sample_fmt2f sample_arith sample_agent (Some [''/tmp/board.docx''])))
        ''zip''
       = ([], ''Export failed: '' @ repr_str ''ADGMCorporateAgent''
            @ '' object has no attribute '' @ repr_str ''export_manager'')"
proof -
  let ?a = "fst (process_uploaded_documents sample_fmt2f sample_arith sample_agent (Some [''/tmp/board.docx'']))"
  have h1: "init sample_getenv (Inr sample_processor) (\<lambda>key. Inr sample_rag) ''20250101_120000''
              = Inr sample_agent"
    by (rule sample_init)
  have h2: "?a = foldl (\<lambda>ag files. fst (process_uploaded_documents sample_fmt2f sample_arith ag files))
                   sample_agent [Some [''/tmp/board.docx'']]"
    by simp
  have h3: "documents (current_session ?a) \<noteq> []"
    using sample_board_batch_documents by fastforce
  show ?thesis
    using analytics_and_export_unavailable [OF h1 h2 h3, of sample_fmt2f "''zip''"] h1 h3
    by simp
qed

subsection \<open>Questions with no retrieved context\<close>

text \<open>
  C2, as amended. Whenever the question is not blank and the retrieved context is empty,
  \<^verbatim>\<open>ask_adgm_question\<close> returns the fixed message 'I couldn't find relevant information in
  the ADGM knowledge base. Please try rephrasing your question.', a plain string that
  carries no confidence value and no references; and \<^verbatim>\<open>ask_adgm_question\<close> never raises an
  exception to its caller, whatever its input.
\<close>

theorem ask_adgm_question_empty_context:
  assumes "strip question \<noteq> []"
    and "retrieve_relevant_context (rag_system a) question 5 = Inr []"
  shows "ask_adgm_question fmt2f a question = Inr no_information_message
       \<and> \<not> occurs_in ''Confidence'' no_information_message
       \<and> \<not> occurs_in ''References'' no_information_message
       \<and> (\<forall>fmt2f' a' question'. \<exists>text. ask_adgm_question fmt2f' a' question' = Inr text)"
proof -
  have "ask_adgm_question fmt2f a question = Inr no_information_message"
    using assms by (simp add: ask_adgm_question_def ask_adgm_question_body_def)
  moreover have "\<not> occurs_in ''Confidence'' no_information_message"
    by (simp add: no_information_message_def)
  moreover have "\<not> occurs_in ''References'' no_information_message"
    by (simp add: no_information_message_def)
  ultimately show ?thesis
    using ask_adgm_question_returns by blast
qed

theorem ask_adgm_question_empty_context_witness:
  "strip ''What is ADGM?'' \<noteq> []
   \<and> retrieve_relevant_context (rag_system sample_agent) ''What is ADGM?'' 5 = Inr []
   \<and> ask_adgm_question sample_fmt2f sample_agent ''What is ADGM?'' = Inr no_information_message"
proof -
  have h2: "retrieve_relevant_context (rag_system sample_agent) ''What is ADGM?'' 5 = Inr []"
    by (simp add: sample_agent_def sample_rag_def)
  show ?thesis
    using ask_adgm_question_empty_context [OF strip_sample_question h2, of sample_fmt2f]
      strip_sample_question h2 by simp
qed

text \<open>
  C2 as stated fails: on a question whose retrieved context is empty the returned answer
  is the plain message; it reports no confidence, neither 0.0 nor any other.
\<close>

theorem ask_adgm_question_no_confidence:
  "ask_adgm_question sample_fmt2f sample_agent ''What is ADGM?''
     = Inr ''I couldn't find relevant information in the ADGM knowledge base. Please try rephrasing your question.''
   \<and> \<not> occurs_in ''Confidence''
         ''I couldn't find relevant information in the ADGM knowledge base. Please try rephrasing your question.''
   \<and> \<not> occurs_in ''0.0''
         ''I couldn't find relevant information in the ADGM knowledge base. Please try rephrasing your question.''"
proof -
  have "ask_adgm_question sample_fmt2f sample_agent ''What is ADGM?'' = Inr no_information_message"
    using strip_sample_question
    by (simp add: ask_adgm_question_def ask_adgm_question_body_def sample_agent_def sample_rag_def)
  then show ?thesis
    by (simp add: no_information_message_def)
qed

subsection \<open>Score of a document without applicable rules\<close>

text \<open>
  C6. For every document whose detected type has no applicable rule in the catalog, the
  overall compliance score is 1. In general the score is the number of Satisfied rules
  divided by the number of Satisfied plus Violated rules, and 1 when that sum is zero.
  When the processor hands this report to the application, the compliance score that
  \<^verbatim>\<open>process_uploaded_documents\<close> stores for the document is 1 as well (the application's
  own default, for an analysis without the key, is 0).
\<close>

theorem no_applicable_rules_fully_compliant:
  assumes none: "\<forall>r \<in> set catalog. document_type md \<notin> set (applicable_types r)"
    and processed:
      "dp fp = Inr (md, secs, analysis_of_report (score catalog (document_type md) text_sections))"
  shows "overall_score (score catalog (document_type md) text_sections) = 1
    \<and> (\<forall>rules doc_type body.
          overall_score (score rules doc_type body) =
            (if count_status doc_type body rules Satisfied + count_status doc_type body rules Violated = 0
             then 1
             else of_nat (count_status doc_type body rules Satisfied)
                  / of_nat (count_status doc_type body rules Satisfied
                            + count_status doc_type body rules Violated)))
    \<and> (\<forall>st. map_option compliance_score
               (map_of (compliance_reports (ls_session (process_file fa dp st fp)))
                  (''doc_'' @ str_nat (processed_docs st + 1))) = Some 1)"
proof -
  have one: "overall_score (score catalog (document_type md) text_sections) = 1"
    using no_applicable_counts [OF none] by (simp add: overall_score_formula)
  have "\<And>st. map_option compliance_score
               (map_of (compliance_reports (ls_session (process_file fa dp st fp)))
                  (''doc_'' @ str_nat (processed_docs st + 1))) = Some 1"
    using one process_file_stores [where dp=dp and fp=fp and fa=fa, OF processed] by (simp add: analysis_of_report_def)
  with one overall_score_formula show ?thesis by blast
qed

theorem no_applicable_rules_fully_compliant_witness:
  "overall_score (score sample_catalog ''Board Resolution'' sample_sections) = 1
   \<and> map_option compliance_score
        (map_of (compliance_reports (ls_session
           (process_file sample_arith (sample_scored_processor ''Board Resolution'')
              (initial_loop_state (current_session sample_agent)) ''/tmp/board.docx'')))
           ''doc_1'') = Some 1"
proof -
  let ?md = "\<lparr>filename = basename ''/tmp/board.docx'', document_type = ''Board Resolution'',
              confidence_score = 1, word_count = 14\<rparr>"
  have h1: "\<forall>r \<in> set sample_catalog. document_type ?md \<notin> set (applicable_types r)"
    by (simp add: sample_catalog_def)
  have h2: "sample_scored_processor ''Board Resolution'' ''/tmp/board.docx''
      = Inr (?md, [], analysis_of_report (score sample_catalog (document_type ?md) sample_sections))"
    by (simp add: sample_scored_processor_def)
  have id: "''doc_'' @ str_nat (processed_docs (initial_loop_state (current_session sample_agent)) + 1)
      = ''doc_1''"
    by (simp add: initial_loop_state_def str_nat.simps digit_char_def)
  note inst = no_applicable_rules_fully_compliant
        [where dp="sample_scored_processor ''Board Resolution''" and fp="''/tmp/board.docx''"
           and fa=sample_arith, OF h1 h2]
  from inst have "overall_score (score sample_catalog (document_type ?md) sample_sections) = 1"
    by (rule conjunct1)
  then have A: "overall_score (score sample_catalog ''Board Resolution'' sample_sections) = 1"
    by simp
  from inst have B: "map_option compliance_score
        (map_of (compliance_reports (ls_session
           (process_file sample_arith (sample_scored_processor ''Board Resolution'')
              (initial_loop_state (current_session sample_agent)) ''/tmp/board.docx'')))
           (''doc_'' @ str_nat (processed_docs (initial_loop_state (current_session sample_agent)) + 1)))
        = Some 1"
    by blast
  show ?thesis
    using A B [unfolded id] by (rule conjI)
qed

subsection \<open>Order of the red flags\<close>

text \<open>
  C9. For every document type and section list, \<^verbatim>\<open>detect\<close> returns its findings ordered by
  descending severity (ascending rank: Critical, High, Medium, Low) and, among findings of
  equal severity that carry a section position, by ascending position. The result holds
  exactly the findings of the five category detectors, findings with the same key keep the
  order in which the detectors produced them, and the result is a function of the input:
  a repeated call on the same input returns the same list in the same order.
\<close>

theorem detect_ordered:
  "sorted (map flag_key (detect ds doc_type secs))
   \<and> (\<forall>i j. i < j \<and> j < length (detect ds doc_type secs) \<longrightarrow>
         severity_rank (flag_severity (detect ds doc_type secs ! i))
           \<le> severity_rank (flag_severity (detect ds doc_type secs ! j))
         \<and> (\<forall>p q. flag_severity (detect ds doc_type secs ! i) = flag_severity (detect ds doc_type secs ! j)
                \<and> flag_location (detect ds doc_type secs ! i) = SectionIndex p
                \<and> flag_location (detect ds doc_type secs ! j) = SectionIndex q \<longrightarrow> p \<le> q))
   \<and> mset (detect ds doc_type secs) = mset (all_findings ds doc_type secs)
   \<and> (\<forall>k. filter (\<lambda>f. flag_key f = k) (detect ds doc_type secs)
            = filter (\<lambda>f. flag_key f = k) (all_findings ds doc_type secs))
   \<and> (\<forall>doc_type' secs'. doc_type' = doc_type \<and> secs' = secs \<longrightarrow>
         detect ds doc_type' secs' = detect ds doc_type secs)"
proof -
  let ?fs = "detect ds doc_type secs"
  have srt: "sorted (map flag_key ?fs)"
    by (simp add: detect_def)
  have pairs: "flag_key (?fs ! i) \<le> flag_key (?fs ! j)" if "i < j" "j < length ?fs" for i j
    using srt that sorted_iff_nth_mono [of "map flag_key ?fs"] by fastforce
  have ord: "\<forall>i j. i < j \<and> j < length ?fs \<longrightarrow>
         severity_rank (flag_severity (?fs ! i)) \<le> severity_rank (flag_severity (?fs ! j))
         \<and> (\<forall>p q. flag_severity (?fs ! i) = flag_severity (?fs ! j)
                \<and> flag_location (?fs ! i) = SectionIndex p
                \<and> flag_location (?fs ! j) = SectionIndex q \<longrightarrow> p \<le> q)"
    using pairs flag_key_order by blast
  have perm: "mset ?fs = mset (all_findings ds doc_type secs)"
    by (simp add: detect_def)
  have stable: "\<forall>k. filter (\<lambda>f. flag_key f = k) ?fs
            = filter (\<lambda>f. flag_key f = k) (all_findings ds doc_type secs)"
    by (simp only: detect_def sort_key_stable) simp
  show ?thesis
    using srt ord perm stable by simp
qed

theorem detect_ordered_witness:
  "map description (detect sample_detectors ''UBO Declaration Form'' sample_sections)
     = [''Beneficial owner without nationality'', ''Courts of England named as venue'',
        ''No section on share capital'', ''Hedging phrase in a critical section'']
   \<and> sorted (map flag_key (detect sample_detectors ''UBO Declaration Form'' sample_sections))
   \<and> mset (detect sample_detectors ''UBO Declaration Form'' sample_sections)
       = mset (all_findings sample_detectors ''UBO Declaration Form'' sample_sections)"
  using detect_ordered [of sample_detectors "''UBO Declaration Form''" sample_sections] sample_detect
  by blast

subsection \<open>Processing the same batch again\<close>

text \<open>
  C7. The session statistics (average score, total issues, missing-document checklist) are
  a function of the stored session, so computing them twice over the same stored documents
  gives the same result. Processing the identical batch of files a second time leaves the
  agent and its session exactly as the first run left them, and returns the same summary,
  detailed analysis and recommendations: the second run writes the same values under the
  same keys, nothing is counted twice. In particular the session statistics are unchanged.
  (The document processor is a function of the file path: the files are the same at both
  runs.)
\<close>

theorem reprocessing_same_batch_idempotent:
  "process_uploaded_documents fmt2f fa (fst (process_uploaded_documents fmt2f fa a files)) files
     = process_uploaded_documents fmt2f fa a files
   \<and> session_statistics fa
        (current_session
           (fst (process_uploaded_documents fmt2f fa (fst (process_uploaded_documents fmt2f fa a files)) files)))
     = session_statistics fa (current_session (fst (process_uploaded_documents fmt2f fa a files)))"
proof -
  have "process_uploaded_documents fmt2f fa (fst (process_uploaded_documents fmt2f fa a files)) files
     = process_uploaded_documents fmt2f fa a files"
  proof (cases files)
    case None
    then show ?thesis by (simp add: process_uploaded_documents_def)
  next
    case (Some fps)
    show ?thesis
    proof (cases "fps = []")
      case True
      with Some show ?thesis by (simp add: process_uploaded_documents_def)
    next
      case False
      let ?dp = "document_processor a"
      let ?st1 = "process_files fa ?dp fps (initial_loop_state (current_session a))"
      let ?a1 = "a\<lparr>current_session := ls_session ?st1\<rparr>"
      have a1: "fst (process_uploaded_documents fmt2f fa a files) = ?a1"
        using Some False
        by (simp add: process_uploaded_documents_def Let_def split: sum.splits)
      have again: "process_files fa (document_processor ?a1) fps (initial_loop_state (current_session ?a1))
                     = ?st1"
        using process_files_twice [of fa ?dp fps "current_session a"] by simp
      show ?thesis
        unfolding a1 using Some False again
        by (simp add: process_uploaded_documents_def Let_def split: sum.splits)
    qed
  qed
  then show ?thesis by simp
qed

theorem reprocessing_same_batch_idempotent_witness:
  "process_uploaded_documents sample_fmt2f sample_arith
     (fst (process_uploaded_documents sample_fmt2f sample_arith sample_agent
             (Some [''/tmp/board.docx'', ''/tmp/corrupt.docx'', ''/tmp/aoa.docx''])))
     (Some [''/tmp/board.docx'', ''/tmp/corrupt.docx'', ''/tmp/aoa.docx''])
   = process_uploaded_documents sample_fmt2f sample_arith sample_agent
       (Some [''/tmp/board.docx'', ''/tmp/corrupt.docx'', ''/tmp/aoa.docx''])"
  using reprocessing_same_batch_idempotent
    [of sample_fmt2f sample_arith sample_agent
       "Some [''/tmp/board.docx'', ''/tmp/corrupt.docx'', ''/tmp/aoa.docx'']"]
  by (rule conjunct1)

subsection \<open>Critical issues of a document\<close>

text \<open>
  C8. The critical issues count of a report equals exactly the number of Critical-severity
  violated rules for the document: the number of distinct identifiers of the rules of the
  catalog that are Violated and of severity Critical. Nothing is counted twice: matching
  rules of the catalog again, any number of times, leaves the count unchanged. When the
  processor hands this report to the application, the issue count that
  \<^verbatim>\<open>process_uploaded_documents\<close> stores for the document is that number.
\<close>

theorem critical_issues_count_exact:
  assumes processed:
      "dp fp = Inr (md, secs, analysis_of_report (score catalog (document_type md) text_sections))"
  shows "report_critical_issues_count (score catalog (document_type md) text_sections)
           = card {rule_id r |r. r \<in> set catalog
                     \<and> evaluate_rule (document_type md) text_sections r = Violated
                     \<and> rule_severity r = Critical}
    \<and> (\<forall>extra. set extra \<subseteq> set catalog \<longrightarrow>
          report_critical_issues_count (score (catalog @ extra) (document_type md) text_sections)
            = report_critical_issues_count (score catalog (document_type md) text_sections))
    \<and> (\<forall>st. map_option issues_count
               (map_of (compliance_reports (ls_session (process_file fa dp st fp)))
                  (''doc_'' @ str_nat (processed_docs st + 1)))
             = Some (int (card {rule_id r |r. r \<in> set catalog
                     \<and> evaluate_rule (document_type md) text_sections r = Violated
                     \<and> rule_severity r = Critical})))"
proof -
  let ?n = "card {rule_id r |r. r \<in> set catalog
                     \<and> evaluate_rule (document_type md) text_sections r = Violated
                     \<and> rule_severity r = Critical}"
  have cnt: "report_critical_issues_count (score catalog (document_type md) text_sections) = ?n"
    by (rule critical_count_card)
  have rpt: "\<forall>extra. set extra \<subseteq> set catalog \<longrightarrow>
          report_critical_issues_count (score (catalog @ extra) (document_type md) text_sections)
            = report_critical_issues_count (score catalog (document_type md) text_sections)"
    using critical_count_repeated by blast
  have stored: "\<forall>st. map_option issues_count
               (map_of (compliance_reports (ls_session (process_file fa dp st fp)))
                  (''doc_'' @ str_nat (processed_docs st + 1))) = Some (int ?n)"
    using cnt process_file_stores [where dp=dp and fp=fp and fa=fa, OF processed]
    by (simp add: analysis_of_report_def)
  show ?thesis
    by (intro conjI) (fact cnt rpt stored)+
qed

theorem critical_issues_count_exact_witness:
  "report_critical_issues_count (score sample_catalog ''Articles of Association'' sample_sections) = 1
   \<and> report_critical_issues_count
        (score (sample_catalog @ sample_catalog) ''Articles of Association'' sample_sections) = 1
   \<and> map_option issues_count
        (map_of (compliance_reports (ls_session
           (process_file sample_arith (sample_scored_processor ''Articles of Association'')
              (initial_loop_state (current_session sample_agent)) ''/tmp/aoa.docx'')))
           ''doc_1'') = Some 1"
proof -
  let ?md = "\<lparr>filename = basename ''/tmp/aoa.docx'', document_type = ''Articles of Association'',
              confidence_score = 1, word_count = 14\<rparr>"
  let ?n = "card {rule_id r |r. r \<in> set sample_catalog
                     \<and> evaluate_rule (document_type ?md) sample_sections r = Violated
                     \<and> rule_severity r = Critical}"
  have h: "sample_scored_processor ''Articles of Association'' ''/tmp/aoa.docx''
      = Inr (?md, [], analysis_of_report (score sample_catalog (document_type ?md) sample_sections))"
    by (simp add: sample_scored_processor_def)
  have id: "''doc_'' @ str_nat (processed_docs (initial_loop_state (current_session sample_agent)) + 1)
      = ''doc_1''"
    by (simp add: initial_loop_state_def str_nat.simps digit_char_def)
  note inst = critical_issues_count_exact
        [where dp="sample_scored_processor ''Articles of Association''" and fp="''/tmp/aoa.docx''"
           and fa=sample_arith, OF h]
  from inst
  have c: "report_critical_issues_count (score sample_catalog (document_type ?md) sample_sections) = ?n"
    by (rule conjunct1)
  have one: "report_critical_issues_count (score sample_catalog (document_type ?md) sample_sections) = 1"
    using sample_critical_count by simp
  with c have n: "?n = 1" by simp
  from inst have "set sample_catalog \<subseteq> set sample_catalog \<longrightarrow>
          report_critical_issues_count (score (sample_catalog @ sample_catalog) (document_type ?md) sample_sections)
            = report_critical_issues_count (score sample_catalog (document_type ?md) sample_sections)"
    by blast
  with one
  have A: "report_critical_issues_count
        (score (sample_catalog @ sample_catalog) ''Articles of Association'' sample_sections) = 1"
    by simp
  from inst have "map_option issues_count
        (map_of (compliance_reports (ls_session
           (process_file sample_arith (sample_scored_processor ''Articles of Association'')
              (initial_loop_state (current_session sample_agent)) ''/tmp/aoa.docx'')))
           (''doc_'' @ str_nat (processed_docs (initial_loop_state (current_session sample_agent)) + 1)))
        = Some (int ?n)"
    by blast
  then have B: "map_option issues_count
        (map_of (compliance_reports (ls_session
           (process_file sample_arith (sample_scored_processor ''Articles of Association'')
              (initial_loop_state (current_session sample_agent)) ''/tmp/aoa.docx'')))
           ''doc_1'') = Some 1"
    unfolding id n by simp
  show ?thesis
    using sample_critical_count A B by (intro conjI)
qed

subsection \<open>The checklist of missing required documents\<close>




subsection \<open>The reported average compliance score\<close>

text \<open>
  C5, as amended. After processing a batch, the average compliance score reported in the
  summary is computed from the documents of that batch that were processed without an
  exception, and from nothing else: it is the running total of their compliance scores,
  added up in the loop in floating point, divided by their number (0 when there is none).
  It is their arithmetic mean as floating point computes it, and exactly their arithmetic
  mean where the floating-point sum and quotient are exact. It is maintained incrementally
  during the batch, not recomputed from the stored reports.
\<close>

theorem reported_average_is_batch_mean:
  assumes batch: "fps \<noteq> []"
    and cover: "reports_cover (current_session a)"
    and st: "st = process_files fa (document_processor a) fps (initial_loop_state (current_session a))"
  shows "fst (snd (process_uploaded_documents fmt2f fa a (Some fps))) = render_summary fmt2f fa st
    \<and> (\<exists>pre post. render_summary fmt2f fa st
           = pre @ ''**Average Compliance Score:** '' @ fmt2f (avg_compliance fa st) @ ''/1.0'' @ post)
    \<and> batch_scores st = map r_compliance_score (filter (\<lambda>r. r_error r = None) (results st))
    \<and> avg_compliance fa st
        = (if batch_scores st = [] then 0
           else fdiv fa (foldl (fadd fa) 0 (batch_scores st)) (length (batch_scores st)))
    \<and> (fadd fa = (\<lambda>x y. x + y) \<and> fdiv fa = (\<lambda>x n. x / of_nat n) \<longrightarrow>
         avg_compliance fa st
           = (if batch_scores st = [] then 0
              else sum_list (batch_scores st) / of_nat (length (batch_scores st))))"
proof -
  have summary: "fst (snd (process_uploaded_documents fmt2f fa a (Some fps))) = render_summary fmt2f fa st"
    using process_uploaded_documents_returns [OF batch cover, of fmt2f fa] unfolding st by auto
  have scores: "batch_scores st = map r_compliance_score (filter (\<lambda>r. r_error r = None) (results st))"
    by (rule batch_scores_def)
  have avg: "avg_compliance fa st
        = (if batch_scores st = [] then 0
           else fdiv fa (foldl (fadd fa) 0 (batch_scores st)) (length (batch_scores st)))"
    unfolding st by (rule avg_compliance_running)
  have exact: "fadd fa = (\<lambda>x y. x + y) \<and> fdiv fa = (\<lambda>x n. x / of_nat n) \<longrightarrow>
         avg_compliance fa st
           = (if batch_scores st = [] then 0
              else sum_list (batch_scores st) / of_nat (length (batch_scores st)))"
  proof
    assume ex: "fadd fa = (\<lambda>x y. x + y) \<and> fdiv fa = (\<lambda>x n. x / of_nat n)"
    have "foldl (\<lambda>x y. x + y) 0 (batch_scores st) = sum_list (batch_scores st)"
      by (simp add: foldl_conv_fold fold_plus_sum_list_rev add.commute)
    with ex avg show "avg_compliance fa st
           = (if batch_scores st = [] then 0
              else sum_list (batch_scores st) / of_nat (length (batch_scores st)))"
      by simp
  qed
  show ?thesis
    by (intro conjI) (fact summary render_summary_average scores avg exact)+
qed

theorem reported_average_is_batch_mean_witness:
  "[''/tmp/board.docx'', ''/tmp/aoa.docx''] \<noteq> []
   \<and> reports_cover (current_session sample_agent)
   \<and> fadd sample_arith = (\<lambda>x y. x + y) \<and> fdiv sample_arith = (\<lambda>x n. x / of_nat n)
   \<and> batch_scores (process_files sample_arith (document_processor sample_agent)
        [''/tmp/board.docx'', ''/tmp/aoa.docx''] (initial_loop_state (current_session sample_agent)))
       = [1 / 2, 1]
   \<and> avg_compliance sample_arith
        (process_files sample_arith (document_processor sample_agent)
           [''/tmp/board.docx'', ''/tmp/aoa.docx''] (initial_loop_state (current_session sample_agent)))
       = 3 / 4"
proof -
  let ?st = "process_files sample_arith (document_processor sample_agent)
        [''/tmp/board.docx'', ''/tmp/aoa.docx''] (initial_loop_state (current_session sample_agent))"
  have h1: "[''/tmp/board.docx'', ''/tmp/aoa.docx''] \<noteq> []" by simp
  have h2: "reports_cover (current_session sample_agent)"
    by (simp add: sample_agent_def reports_cover_def)
  have e1: "fadd sample_arith = (\<lambda>x y. x + y)" and e2: "fdiv sample_arith = (\<lambda>x n. x / of_nat n)"
    by (simp_all add: sample_arith_def)
  have bs: "batch_scores ?st = [1 / 2, 1]"
    by code_simp
  from reported_average_is_batch_mean [OF h1 h2 refl, of sample_fmt2f] e1 e2
  have "avg_compliance sample_arith ?st
           = (if batch_scores ?st = [] then 0
              else sum_list (batch_scores ?st) / of_nat (length (batch_scores ?st)))"
    by blast
  then have avg: "avg_compliance sample_arith ?st = 3 / 4"
    unfolding bs by simp
  show ?thesis
    using h1 h2 e1 e2 bs avg by (intro conjI)
qed

text \<open>
  C5 as stated fails: in a session that holds two documents of score 0.5 from an earlier
  batch, a batch with one document of score 1 reports the average 1.00, while the stored
  reports then hold the scores 1 and 0.5 (mean 0.75), and the three documents processed so
  far have the arithmetic mean 2/3.
\<close>

theorem reported_average_not_session_mean:
  "fst (snd (process_uploaded_documents sample_fmt2f sample_arith
      (fst (process_uploaded_documents sample_fmt2f sample_arith sample_agent
         (Some [''/tmp/board.docx'', ''/tmp/board.docx''])))
      (Some [''/tmp/aoa.docx''])))
     = ''\<newline>## Document Processing Summary\<newline>\<newline>**Documents Processed:** 1\<newline>**Average Compliance Score:** 1.00/1.0\<newline>**Total Issues Found:** 0\<newline>**Session ID:** session_20250101_120000\<newline>\<newline>### Document Details:\<newline>\<newline>- **aoa.docx**\<newline>  - Type: Articles of Association (Confidence: 0.75)\<newline>  - Compliance Score: 1.00\<newline>  - Issues: 0\<newline>''
   \<and> avg_compliance sample_arith
       (process_files sample_arith sample_processor [''/tmp/aoa.docx'']
          (initial_loop_state (current_session
             (fst (process_uploaded_documents sample_fmt2f sample_arith sample_agent
                (Some [''/tmp/board.docx'', ''/tmp/board.docx'']))))))
     = 1
   \<and> stored_scores (current_session (fst (process_uploaded_documents sample_fmt2f sample_arith
       (fst (process_uploaded_documents sample_fmt2f sample_arith sample_agent
          (Some [''/tmp/board.docx'', ''/tmp/board.docx''])))
       (Some [''/tmp/aoa.docx'']))))
     = [1, 1 / 2]
   \<and> mean sample_arith [1, 1 / 2] = 3 / 4
   \<and> (1 / 2 + 1 / 2 + 1) / 3 = (2 / 3 :: rat)"
  by code_simp

end
